theory Spec2Isabelle
  imports Complex_Main
begin

section \<open>Python strings\<close>

text \<open>
  A Python \<open>str\<close> is a sequence of Unicode code points; \<open>len\<close> counts code points.
  A string is modelled as the list of its code points, so \<open>length\<close> is Python's \<open>len\<close>
  and \<open>take n\<close> is the slice \<open>s[:n]\<close> for \<open>n \<ge> 0\<close>. The sources' literals are mostly
  Cyrillic; they appear below as lists of code points, ASCII literals through \<open>asc\<close>.
\<close>

type_synonym pystr = "nat list"

definition asc :: "string \<Rightarrow> pystr" where
  "asc s = map of_char s"

text \<open>
  \<open>str.isspace\<close> on one character, which is also what \<open>str.strip()\<close> strips and what
  \<open>\s\<close> matches in a \<open>str\<close> pattern of \<open>re\<close>: the code points
  U+0009..U+000D, U+001C..U+0020, U+0085, U+00A0, U+1680, U+2000..U+200A, U+2028, U+2029,
  U+202F, U+205F and U+3000.
\<close>

definition isspace :: "nat \<Rightarrow> bool" where
  "isspace c \<longleftrightarrow>
     (9 \<le> c \<and> c \<le> 13) \<or> (28 \<le> c \<and> c \<le> 32) \<or> c = 133 \<or> c = 160 \<or> c = 5760 \<or>
     (8192 \<le> c \<and> c \<le> 8202) \<or> c = 8232 \<or> c = 8233 \<or> c = 8239 \<or> c = 8287 \<or> c = 12288"

text \<open>\<open>s.strip()\<close>: whitespace removed at both ends.\<close>

definition strip :: "pystr \<Rightarrow> pystr" where
  "strip s = rev (dropWhile isspace (rev (dropWhile isspace s)))"

text \<open>
  \<open>re.sub(P+, r, s)\<close> for a one-character class \<open>P\<close>: every maximal run of characters
  of the class is replaced by \<open>r\<close>.
\<close>

function sub_runs :: "(nat \<Rightarrow> bool) \<Rightarrow> pystr \<Rightarrow> pystr \<Rightarrow> pystr" where
  "sub_runs P r [] = []"
| "sub_runs P r (c # cs) =
     (if P c then r @ sub_runs P r (dropWhile P cs) else c # sub_runs P r cs)"
  by pat_completeness auto
termination
  by (relation "measure (\<lambda>(P, r, s). length s)") (auto simp: length_dropWhile_le less_Suc_eq_le)

text \<open>\<open>str(n)\<close> for an integer: decimal digits, with a minus sign when negative.\<close>

function str_nat :: "nat \<Rightarrow> pystr" where
  "str_nat n = (if n < 10 then [48 + n] else str_nat (n div 10) @ [48 + n mod 10])"
  by pat_completeness auto
termination
  by (relation "measure (\<lambda>n. n)") auto

definition str_int :: "int \<Rightarrow> pystr" where
  "str_int i = (if i < 0 then 45 # str_nat (nat (- i)) else str_nat (nat i))"

text \<open>
  \<open>s.replace(old, new)\<close>: the leftmost non-overlapping occurrences of \<open>old\<close> are replaced;
  an empty \<open>old\<close> matches before every character and at the end.
\<close>

function replace_nonempty :: "pystr \<Rightarrow> pystr \<Rightarrow> pystr \<Rightarrow> pystr" where
  "replace_nonempty old new [] = []"
| "replace_nonempty old new (c # cs) =
     (if old \<noteq> [] \<and> take (length old) (c # cs) = old
      then new @ replace_nonempty old new (drop (length old) (c # cs))
      else c # replace_nonempty old new cs)"
  by pat_completeness auto
termination
  by (relation "measure (\<lambda>(old, new, s). length s)") auto

definition replace_str :: "pystr \<Rightarrow> pystr \<Rightarrow> pystr \<Rightarrow> pystr" where
  "replace_str old new s =
     (if old = [] then new @ concat (map (\<lambda>c. c # new) s) else replace_nonempty old new s)"

text \<open>
  \<open>s.rsplit(' ', 1)[0]\<close>: the part of \<open>s\<close> before its last U+0020, the whole of \<open>s\<close>
  when it has none.
\<close>

definition rsplit_space_head :: "pystr \<Rightarrow> pystr" where
  "rsplit_space_head s =
     (if 32 \<in> set s then rev (tl (dropWhile (\<lambda>c. c \<noteq> 32) (rev s))) else s)"


section \<open>String literals of the sources\<close>

text \<open>
  The Russian literals of the message formats, as code points. Each is named after its
  meaning, given in English beside it.
\<close>

definition bad_url_prefix :: pystr where \<comment> \<open>Incorrect URL: \<close>
  "bad_url_prefix =
     [1053, 1077, 1082, 1086, 1088, 1088, 1077, 1082, 1090, 1085, 1099, 1081, 32, 85, 82, 76,
      58, 32]"

definition url_validation_user_message :: pystr where \<comment> \<open>Incorrect URL. Please give the full URL with its protocol (http:// or https://)\<close>
  "url_validation_user_message =
     [1053, 1077, 1082, 1086, 1088, 1088, 1077, 1082, 1090, 1085, 1099, 1081, 32, 85, 82, 76,
      46, 32, 1055, 1086, 1078, 1072, 1083, 1091, 1081, 1089, 1090, 1072, 44, 32, 1091, 1082,
      1072, 1078, 1080, 1090, 1077, 32, 1087, 1086, 1083, 1085, 1099, 1081, 32, 85, 82, 76, 32,
      1089, 32, 1087, 1088, 1086, 1090, 1086, 1082, 1086, 1083, 1086, 1084, 32, 40, 104, 116,
      116, 112, 58, 47, 47, 32, 1080, 1083, 1080, 32, 104, 116, 116, 112, 115, 58, 47, 47, 41]"

definition fetch_failed_prefix :: pystr where \<comment> \<open>Error loading \<close>
  "fetch_failed_prefix =
     [1054, 1096, 1080, 1073, 1082, 1072, 32, 1079, 1072, 1075, 1088, 1091, 1079, 1082, 1080,
      32]"

definition extraction_failed_prefix :: pystr where \<comment> \<open>Could not extract text from \<close>
  "extraction_failed_prefix =
     [1053, 1077, 32, 1091, 1076, 1072, 1083, 1086, 1089, 1100, 32, 1080, 1079, 1074, 1083,
      1077, 1095, 1100, 32, 1090, 1077, 1082, 1089, 1090, 32, 1080, 1079, 32]"

definition openai_error_prefix :: pystr where \<comment> \<open>OpenAI API error: \<close>
  "openai_error_prefix =
     [1054, 1096, 1080, 1073, 1082, 1072, 32, 79, 112, 101, 110, 65, 73, 32, 65, 80, 73, 58, 32]"

definition rate_limit_reason :: pystr where \<comment> \<open>rate limit exceeded\<close>
  "rate_limit_reason =
     [1055, 1088, 1077, 1074, 1099, 1096, 1077, 1085, 32, 114, 97, 116, 101, 32, 108, 105, 109,
      105, 116]"

definition retry_in_prefix :: pystr where \<comment> \<open>, retry in \<close>
  "retry_in_prefix =
     [44, 32, 1087, 1086, 1074, 1090, 1086, 1088, 1080, 1090, 1077, 32, 1095, 1077, 1088, 1077,
      1079, 32]"

definition seconds_suffix :: pystr where \<comment> \<open> seconds\<close>
  "seconds_suffix =
     [32, 1089, 1077, 1082, 1091, 1085, 1076]"

definition generation_failed_prefix :: pystr where \<comment> \<open>Post generation error: \<close>
  "generation_failed_prefix =
     [1054, 1096, 1080, 1073, 1082, 1072, 32, 1075, 1077, 1085, 1077, 1088, 1072, 1094, 1080,
      1080, 32, 1087, 1086, 1089, 1090, 1072, 58, 32]"

definition configuration_error_prefix :: pystr where \<comment> \<open>Configuration error '\<close>
  "configuration_error_prefix =
     [1054, 1096, 1080, 1073, 1082, 1072, 32, 1082, 1086, 1085, 1092, 1080, 1075, 1091, 1088,
      1072, 1094, 1080, 1080, 32, 39]"

definition url_empty_reason :: pystr where \<comment> \<open>URL is empty\<close>
  "url_empty_reason =
     [85, 82, 76, 32, 1087, 1091, 1089, 1090, 1086, 1081]"

definition url_format_reason :: pystr where \<comment> \<open>Invalid URL format\<close>
  "url_format_reason =
     [1053, 1077, 1074, 1072, 1083, 1080, 1076, 1085, 1099, 1081, 32, 1092, 1086, 1088, 1084,
      1072, 1090, 32, 85, 82, 76]"

definition scheme_reason_prefix :: pystr where \<comment> \<open>Unsupported protocol: \<close>
  "scheme_reason_prefix =
     [1053, 1077, 1087, 1086, 1076, 1076, 1077, 1088, 1078, 1080, 1074, 1072, 1077, 1084, 1099,
      1081, 32, 1087, 1088, 1086, 1090, 1086, 1082, 1086, 1083, 58, 32]"

definition no_host_reason :: pystr where \<comment> \<open>The domain name is missing\<close>
  "no_host_reason =
     [1054, 1090, 1089, 1091, 1090, 1089, 1090, 1074, 1091, 1077, 1090, 32, 1076, 1086, 1084,
      1077, 1085, 1085, 1086, 1077, 32, 1080, 1084, 1103]"

definition short_text_prefix :: pystr where \<comment> \<open>Not enough text: \<close>
  "short_text_prefix =
     [1058, 1077, 1082, 1089, 1090, 1072, 32, 1085, 1077, 1076, 1086, 1089, 1090, 1072, 1090,
      1086, 1095, 1085, 1086, 58, 32]"

definition characters_suffix :: pystr where \<comment> \<open> characters\<close>
  "characters_suffix =
     [32, 1089, 1080, 1084, 1074, 1086, 1083, 1086, 1074]"

definition default_length_phrase :: pystr where \<comment> \<open>at most 800 characters\<close>
  "default_length_phrase =
     [1084, 1072, 1082, 1089, 1080, 1084, 1091, 1084, 32, 56, 48, 48, 32, 1089, 1080, 1084,
      1074, 1086, 1083, 1086, 1074]"

definition maximum_prefix :: pystr where \<comment> \<open>at most \<close>
  "maximum_prefix =
     [1084, 1072, 1082, 1089, 1080, 1084, 1091, 1084, 32]"


section \<open>exceptions.py: the error taxonomy\<close>

text \<open>
  Values stored in a details mapping or in an API response dictionary. Dictionary keys are
  ASCII identifiers in the sources and are kept as \<open>string\<close>.
\<close>

datatype pyval = PStr pystr | PInt int | PBool bool | PNone

type_synonym pydict = "string \<rightharpoonup> pyval"

definition opt_str :: "pystr option \<Rightarrow> pyval" where
  "opt_str v = (case v of None \<Rightarrow> PNone | Some s \<Rightarrow> PStr s)"

text \<open>The classes of exceptions.py; \<open>type(e).__name__\<close> of an application exception.\<close>

datatype exc_class =
    SocialPostGeneratorException
  | ValidationError
  | URLValidationError
  | URLFetchError
  | TextExtractionError
  | OpenAIError
  | RateLimitError
  | PostGenerationError
  | ConfigurationError

text \<open>
  \<open>_default_user_message\<close> and \<open>_default_error_code\<close>, resolved along the class hierarchy:
  URLValidationError inherits both from ValidationError, RateLimitError overrides
  OpenAIError's.
\<close>

fun default_user_message :: "exc_class \<Rightarrow> pystr" where
  "default_user_message SocialPostGeneratorException =
          [1055, 1088, 1086, 1080, 1079, 1086, 1096, 1083, 1072, 32, 1086, 1096, 1080, 1073, 1082,
           1072, 32, 1087, 1088, 1080, 32, 1086, 1073, 1088, 1072, 1073, 1086, 1090, 1082, 1077,
           32, 1079, 1072, 1087, 1088, 1086, 1089, 1072, 46, 32, 1040, 1076, 1084, 1080, 1085,
           1080, 1089, 1090, 1088, 1072, 1090, 1086, 1088, 32, 1091, 1078, 1077, 32, 1091, 1074,
           1077, 1076, 1086, 1084, 1083, 1077, 1085, 32, 1086, 32, 1087, 1088, 1086, 1073, 1083,
           1077, 1084, 1077, 46]"
| "default_user_message ValidationError =
          [1053, 1077, 1082, 1086, 1088, 1088, 1077, 1082, 1090, 1085, 1099, 1077, 32, 1074, 1093,
           1086, 1076, 1085, 1099, 1077, 32, 1076, 1072, 1085, 1085, 1099, 1077, 46, 32, 1055,
           1086, 1078, 1072, 1083, 1091, 1081, 1089, 1090, 1072, 44, 32, 1087, 1088, 1086, 1074,
           1077, 1088, 1100, 1090, 1077, 32, 1087, 1088, 1072, 1074, 1080, 1083, 1100, 1085, 1086,
           1089, 1090, 1100, 32, 1074, 1074, 1077, 1076, 1077, 1085, 1085, 1086, 1081, 32, 1080,
           1085, 1092, 1086, 1088, 1084, 1072, 1094, 1080, 1080, 46]"
| "default_user_message URLValidationError =
          [1053, 1077, 1082, 1086, 1088, 1088, 1077, 1082, 1090, 1085, 1099, 1077, 32, 1074, 1093,
           1086, 1076, 1085, 1099, 1077, 32, 1076, 1072, 1085, 1085, 1099, 1077, 46, 32, 1055,
           1086, 1078, 1072, 1083, 1091, 1081, 1089, 1090, 1072, 44, 32, 1087, 1088, 1086, 1074,
           1077, 1088, 1100, 1090, 1077, 32, 1087, 1088, 1072, 1074, 1080, 1083, 1100, 1085, 1086,
           1089, 1090, 1100, 32, 1074, 1074, 1077, 1076, 1077, 1085, 1085, 1086, 1081, 32, 1080,
           1085, 1092, 1086, 1088, 1084, 1072, 1094, 1080, 1080, 46]"
| "default_user_message URLFetchError =
          [1053, 1077, 32, 1091, 1076, 1072, 1083, 1086, 1089, 1100, 32, 1079, 1072, 1075, 1088,
           1091, 1079, 1080, 1090, 1100, 32, 1089, 1090, 1088, 1072, 1085, 1080, 1094, 1091, 46,
           32, 1055, 1088, 1086, 1074, 1077, 1088, 1100, 1090, 1077, 32, 1087, 1088, 1072, 1074,
           1080, 1083, 1100, 1085, 1086, 1089, 1090, 1100, 32, 85, 82, 76, 32, 1080, 32, 1076,
           1086, 1089, 1090, 1091, 1087, 1085, 1086, 1089, 1090, 1100, 32, 1089, 1072, 1081, 1090,
           1072, 46]"
| "default_user_message TextExtractionError =
          [1053, 1072, 32, 1089, 1090, 1088, 1072, 1085, 1080, 1094, 1077, 32, 1085, 1077, 32,
           1085, 1072, 1081, 1076, 1077, 1085, 1086, 32, 1076, 1086, 1089, 1090, 1072, 1090, 1086,
           1095, 1085, 1086, 32, 1090, 1077, 1082, 1089, 1090, 1072, 32, 1076, 1083, 1103, 32,
           1075, 1077, 1085, 1077, 1088, 1072, 1094, 1080, 1080, 32, 1087, 1086, 1089, 1090, 1072,
           46, 32, 1055, 1086, 1087, 1088, 1086, 1073, 1091, 1081, 1090, 1077, 32, 1076, 1088,
           1091, 1075, 1086, 1081, 32, 85, 82, 76, 46]"
| "default_user_message OpenAIError =
          [1042, 1088, 1077, 1084, 1077, 1085, 1085, 1099, 1077, 32, 1087, 1088, 1086, 1073, 1083,
           1077, 1084, 1099, 32, 1089, 32, 1075, 1077, 1085, 1077, 1088, 1072, 1094, 1080, 1077,
           1081, 46, 32, 1052, 1099, 32, 1091, 1078, 1077, 32, 1088, 1072, 1073, 1086, 1090, 1072,
           1077, 1084, 32, 1085, 1072, 1076, 32, 1088, 1077, 1096, 1077, 1085, 1080, 1077, 1084,
           46, 32, 1055, 1086, 1087, 1088, 1086, 1073, 1091, 1081, 1090, 1077, 32, 1087, 1086,
           1079, 1078, 1077, 46]"
| "default_user_message RateLimitError =
          [1055, 1088, 1077, 1074, 1099, 1096, 1077, 1085, 32, 1083, 1080, 1084, 1080, 1090, 32,
           1079, 1072, 1087, 1088, 1086, 1089, 1086, 1074, 46, 32, 1055, 1086, 1078, 1072, 1083,
           1091, 1081, 1089, 1090, 1072, 44, 32, 1087, 1086, 1076, 1086, 1078, 1076, 1080, 1090,
           1077, 32, 1085, 1077, 1084, 1085, 1086, 1075, 1086, 32, 1087, 1077, 1088, 1077, 1076,
           32, 1089, 1083, 1077, 1076, 1091, 1102, 1097, 1077, 1081, 32, 1087, 1086, 1087, 1099,
           1090, 1082, 1086, 1081, 46]"
| "default_user_message PostGenerationError =
          [1053, 1077, 32, 1091, 1076, 1072, 1083, 1086, 1089, 1100, 32, 1089, 1075, 1077, 1085,
           1077, 1088, 1080, 1088, 1086, 1074, 1072, 1090, 1100, 32, 1087, 1086, 1089, 1090, 46,
           32, 1055, 1086, 1078, 1072, 1083, 1091, 1081, 1089, 1090, 1072, 44, 32, 1087, 1086,
           1087, 1088, 1086, 1073, 1091, 1081, 1090, 1077, 32, 1076, 1088, 1091, 1075, 1086, 1081,
           32, 85, 82, 76, 32, 1080, 1083, 1080, 32, 1089, 1090, 1080, 1083, 1100, 46]"
| "default_user_message ConfigurationError =
          [1054, 1096, 1080, 1073, 1082, 1072, 32, 1082, 1086, 1085, 1092, 1080, 1075, 1091, 1088,
           1072, 1094, 1080, 1080, 32, 1087, 1088, 1080, 1083, 1086, 1078, 1077, 1085, 1080, 1103,
           46, 32, 1055, 1086, 1078, 1072, 1083, 1091, 1081, 1089, 1090, 1072, 44, 32, 1086, 1073,
           1088, 1072, 1090, 1080, 1090, 1077, 1089, 1100, 32, 1082, 32, 1072, 1076, 1084, 1080,
           1085, 1080, 1089, 1090, 1088, 1072, 1090, 1086, 1088, 1091, 46]"

fun default_error_code :: "exc_class \<Rightarrow> pystr" where
  "default_error_code SocialPostGeneratorException = asc ''INTERNAL_ERROR''"
| "default_error_code ValidationError = asc ''VALIDATION_ERROR''"
| "default_error_code URLValidationError = asc ''VALIDATION_ERROR''"
| "default_error_code URLFetchError = asc ''URL_FETCH_ERROR''"
| "default_error_code TextExtractionError = asc ''TEXT_EXTRACTION_ERROR''"
| "default_error_code OpenAIError = asc ''OPENAI_ERROR''"
| "default_error_code RateLimitError = asc ''RATE_LIMIT_ERROR''"
| "default_error_code PostGenerationError = asc ''POST_GENERATION_ERROR''"
| "default_error_code ConfigurationError = asc ''CONFIGURATION_ERROR''"

text \<open>
  An application exception: its class and the four attributes set by
  \<open>SocialPostGeneratorException.__init__\<close>. \<open>str(e)\<close> of such an exception is its
  \<open>message\<close>.
\<close>

record app_exception =
  cls :: exc_class
  message :: pystr
  user_message :: pystr
  error_code :: pystr
  details :: pydict

text \<open>
  \<open>SocialPostGeneratorException.__init__(message, user_message, error_code, details)\<close> run
  for an instance of class \<open>k\<close>: \<open>x or default\<close> for the three optional arguments.
\<close>

definition base_init ::
  "exc_class \<Rightarrow> pystr \<Rightarrow> pystr option \<Rightarrow> pystr option \<Rightarrow> pydict option \<Rightarrow> app_exception" where
  "base_init k msg um code det =
     \<lparr>cls = k,
      message = msg,
      user_message = (case um of None \<Rightarrow> default_user_message k
                      | Some u \<Rightarrow> if u = [] then default_user_message k else u),
      error_code = (case code of None \<Rightarrow> default_error_code k
                    | Some x \<Rightarrow> if x = [] then default_error_code k else x),
      details = (case det of None \<Rightarrow> Map.empty | Some d \<Rightarrow> d)\<rparr>"

text \<open>\<open>URLValidationError(url, reason)\<close>.\<close>

definition URLValidationError_new :: "pystr \<Rightarrow> pystr option \<Rightarrow> app_exception" where
  "URLValidationError_new url reason =
     base_init URLValidationError
       (bad_url_prefix @ url @
          (case reason of None \<Rightarrow> [] | Some r \<Rightarrow> if r = [] then [] else asc '' ('' @ r @ asc '')''))
       (Some url_validation_user_message)
       None
       (Some [''url'' \<mapsto> PStr url, ''reason'' \<mapsto> opt_str reason])"

text \<open>\<open>URLFetchError(url, reason, status_code)\<close>.\<close>

definition URLFetchError_new :: "pystr \<Rightarrow> pystr option \<Rightarrow> int option \<Rightarrow> app_exception" where
  "URLFetchError_new url reason status_code =
     base_init URLFetchError
       (fetch_failed_prefix @ url @
          (case status_code of None \<Rightarrow> []
           | Some n \<Rightarrow> if n = 0 then [] else asc '' (HTTP '' @ str_int n @ asc '')'') @
          (case reason of None \<Rightarrow> [] | Some r \<Rightarrow> if r = [] then [] else asc '': '' @ r))
       None None
       (Some (([''url'' \<mapsto> PStr url]
          ++ (case status_code of None \<Rightarrow> Map.empty
              | Some n \<Rightarrow> if n = 0 then Map.empty else [''status_code'' \<mapsto> PInt n]))
          ++ (case reason of None \<Rightarrow> Map.empty
              | Some r \<Rightarrow> if r = [] then Map.empty else [''reason'' \<mapsto> PStr r])))"

text \<open>\<open>TextExtractionError(url, reason)\<close>.\<close>

definition TextExtractionError_new :: "pystr \<Rightarrow> pystr option \<Rightarrow> app_exception" where
  "TextExtractionError_new url reason =
     base_init TextExtractionError
       (extraction_failed_prefix @ url @
          (case reason of None \<Rightarrow> [] | Some r \<Rightarrow> if r = [] then [] else asc '': '' @ r))
       None None
       (Some [''url'' \<mapsto> PStr url, ''reason'' \<mapsto> opt_str reason])"

text \<open>
  An exception that is not of exceptions.py (raised by a library or the interpreter):
  \<open>type(e).__name__\<close> and \<open>str(e)\<close>.
\<close>

record foreign_exception =
  exc_type :: pystr
  exc_str :: pystr

text \<open>
  \<open>OpenAIError.__init__(reason, api_error, retry_count)\<close>, run for an instance of class
  \<open>k\<close> (OpenAIError itself, or RateLimitError through \<open>super().__init__\<close>). An exception
  object is always true, so \<open>if api_error:\<close> asks whether one was given.
\<close>

definition OpenAIError_init ::
  "exc_class \<Rightarrow> pystr \<Rightarrow> foreign_exception option \<Rightarrow> int \<Rightarrow> app_exception" where
  "OpenAIError_init k reason api_error retry_count =
     base_init k
       (openai_error_prefix @ reason @
          (case api_error of None \<Rightarrow> []
           | Some e \<Rightarrow> asc '' ('' @ exc_type e @ asc '': '' @ exc_str e @ asc '')''))
       None None
       (Some ([''reason'' \<mapsto> PStr reason, ''retry_count'' \<mapsto> PInt retry_count]
          ++ (case api_error of None \<Rightarrow> Map.empty
              | Some e \<Rightarrow> [''api_error_type'' \<mapsto> PStr (exc_type e),
                           ''api_error_message'' \<mapsto> PStr (exc_str e)])))"

definition OpenAIError_new :: "pystr \<Rightarrow> foreign_exception option \<Rightarrow> int \<Rightarrow> app_exception" where
  "OpenAIError_new reason api_error retry_count =
     OpenAIError_init OpenAIError reason api_error retry_count"

text \<open>\<open>RateLimitError(retry_after)\<close>.\<close>

definition RateLimitError_new :: "int option \<Rightarrow> app_exception" where
  "RateLimitError_new retry_after =
     (let reason = rate_limit_reason @
            (case retry_after of None \<Rightarrow> []
             | Some n \<Rightarrow> if n = 0 then []
                         else retry_in_prefix @ str_int n @ seconds_suffix);
          e = OpenAIError_init RateLimitError reason None 0
      in case retry_after of None \<Rightarrow> e
         | Some n \<Rightarrow> if n = 0 then e else e\<lparr>details := (details e)(''retry_after'' \<mapsto> PInt n)\<rparr>)"

text \<open>\<open>PostGenerationError(reason, url, style)\<close>.\<close>

definition PostGenerationError_new ::
  "pystr \<Rightarrow> pystr option \<Rightarrow> pystr option \<Rightarrow> app_exception" where
  "PostGenerationError_new reason url style =
     base_init PostGenerationError
       (generation_failed_prefix @ reason)
       None None
       (Some (([''reason'' \<mapsto> PStr reason]
          ++ (case url of None \<Rightarrow> Map.empty
              | Some u \<Rightarrow> if u = [] then Map.empty else [''url'' \<mapsto> PStr u]))
          ++ (case style of None \<Rightarrow> Map.empty
              | Some s \<Rightarrow> if s = [] then Map.empty else [''style'' \<mapsto> PStr s])))"

text \<open>\<open>ConfigurationError(parameter, reason)\<close>.\<close>

definition ConfigurationError_new :: "pystr \<Rightarrow> pystr \<Rightarrow> app_exception" where
  "ConfigurationError_new parameter reason =
     base_init ConfigurationError
       (configuration_error_prefix @ parameter @ [39] @ asc '': '' @ reason)
       None None
       (Some [''parameter'' \<mapsto> PStr parameter, ''reason'' \<mapsto> PStr reason])"

text \<open>
  \<open>to_dict\<close>: the dictionary display \<open>{"success": False, "error": ..., "error_code": ...,
  **self.details}\<close>; an entry of the details replaces an earlier entry with its key.
\<close>

definition to_dict :: "app_exception \<Rightarrow> pydict" where
  "to_dict e =
     [''success'' \<mapsto> PBool False,
      ''error'' \<mapsto> PStr (user_message e),
      ''error_code'' \<mapsto> PStr (error_code e)] ++ details e"

text \<open>Any Python exception: one of exceptions.py, or a foreign one.\<close>

datatype py_exception = AppException app_exception | OtherException foreign_exception

text \<open>
  The user message \<open>handle_exception\<close> gives for an exception that is not of
  exceptions.py.
\<close>

definition unexpected_error_message :: pystr where
  "unexpected_error_message =
     [1055, 1088, 1086, 1080, 1079, 1086, 1096, 1083, 1072, 32, 1085, 1077, 1087, 1088, 1077,
           1076, 1074, 1080, 1076, 1077, 1085, 1085, 1072, 1103, 32, 1086, 1096, 1080, 1073, 1082,
           1072, 46, 32, 1040, 1076, 1084, 1080, 1085, 1080, 1089, 1090, 1088, 1072, 1090, 1086,
           1088, 32, 1091, 1078, 1077, 32, 1091, 1074, 1077, 1076, 1086, 1084, 1083, 1077, 1085,
           46]"

text \<open>\<open>handle_exception\<close>: the \<open>isinstance\<close> test is the constructor.\<close>

definition handle_exception :: "py_exception \<Rightarrow> pydict" where
  "handle_exception exception =
     (case exception of
        AppException e \<Rightarrow> to_dict e
      | OtherException x \<Rightarrow>
          [''success'' \<mapsto> PBool False,
           ''error'' \<mapsto> PStr unexpected_error_message,
           ''error_code'' \<mapsto> PStr (asc ''INTERNAL_ERROR'')])"

text \<open>
  The failures of the taxonomy as the program builds them: the values of the seven
  constructors of the concrete kinds, at any arguments.
\<close>

inductive taxonomy_failure :: "app_exception \<Rightarrow> bool" where
  "taxonomy_failure (URLValidationError_new url reason)"
| "taxonomy_failure (URLFetchError_new url reason status_code)"
| "taxonomy_failure (TextExtractionError_new url reason)"
| "taxonomy_failure (OpenAIError_new r api_error retry_count)"
| "taxonomy_failure (RateLimitError_new retry_after)"
| "taxonomy_failure (PostGenerationError_new r u s)"
| "taxonomy_failure (ConfigurationError_new parameter r)"


section \<open>openai_module.py: the generation client\<close>

text \<open>
  The counters of an \<open>OpenAIClient\<close> and its model name; a new client has all three at
  0. The constructor's checks of the configuration are outside the model.
\<close>

record client =
  model :: pystr
  total_requests :: int
  total_tokens :: int
  failed_requests :: int

definition new_client :: "pystr \<Rightarrow> client" where
  "new_client m = \<lparr>model = m, total_requests = 0, total_tokens = 0, failed_requests = 0\<rparr>"

text \<open>One chat message, and one call of \<open>client.chat.completions.create\<close>.\<close>

record chat_message =
  role :: pystr
  content :: pystr

record request =
  req_model :: pystr
  req_messages :: "chat_message list"

text \<open>
  What a call gives back. A response is an object of the provider's library; the model
  keeps what the statements of \<open>generate_text\<close> that read it meet.
  \<open>first_content\<close> is what \<open>response.choices[0].message.content.strip()\<close> meets: the
  content string, on which \<open>strip\<close> is then called, or the exception raised on the way
  (IndexError for no choice, AttributeError for a content of \<open>None\<close>, TypeError for
  \<open>choices\<close> of \<open>None\<close>). \<open>usage_tokens\<close> is \<open>None\<close> when the
  response has no \<open>usage\<close> or a false one; otherwise it is what
  \<open>self.total_tokens += response.usage.total_tokens\<close> meets: the integer added, or the
  exception raised (TypeError for a \<open>total_tokens\<close> of \<open>None\<close>).
  A raised exception of the call is classified by the first \<open>except\<close> clause of
  \<open>generate_text\<close> that catches it, in the order of the clauses; a rate-limit error
  carries its \<open>retry_after\<close> attribute when it has one.
\<close>

record response =
  first_content :: "foreign_exception + pystr"
  usage_tokens :: "(foreign_exception + int) option"

datatype api_exception =
    OpenAIRateLimitError foreign_exception "int option"
  | APITimeoutError foreign_exception
  | APIConnectionError foreign_exception
  | APIError foreign_exception
  | UnexpectedError foreign_exception

datatype api_outcome = Completed response | Raised api_exception

text \<open>
  The world outside the client: the requests sent so far and the delays slept so far, in
  order. The provider is a function \<open>remote\<close> from the number of requests already sent and
  the request to its outcome.
\<close>

record world =
  calls :: "request list"
  sleeps :: "nat list"

text \<open>
  The body of the \<open>try\<close>, run on a client: the call, the extraction of the text, then the
  statistics. \<open>total_requests\<close> is incremented once the text is extracted and before the
  tokens are read, so an exception raised while the tokens are added leaves the request
  counted. An exception raised by the extraction or by the statistics is none of the
  provider's classes and is caught by \<open>except Exception\<close>.
\<close>

definition try_body :: "api_outcome \<Rightarrow> client \<Rightarrow> (api_exception + pystr) \<times> client" where
  "try_body out c =
     (case out of
        Raised x \<Rightarrow> (Inl x, c)
      | Completed r \<Rightarrow>
          (case first_content r of
             Inl e \<Rightarrow> (Inl (UnexpectedError e), c)
           | Inr text \<Rightarrow>
               (let c1 = c\<lparr>total_requests := total_requests c + 1\<rparr> in
                case usage_tokens r of
                  None \<Rightarrow> (Inr (strip text), c1)
                | Some (Inl e) \<Rightarrow> (Inl (UnexpectedError e), c1)
                | Some (Inr n) \<Rightarrow>
                    (Inr (strip text), c1\<lparr>total_tokens := total_tokens c1 + n\<rparr>))))"

text \<open>
  The reasons \<open>generate_text\<close> gives to OpenAIError (in Russian in the source): a timeout
  of the request, a connection error, an unexpected error, all attempts used up.
\<close>

definition timeout_reason :: pystr where
  "timeout_reason =
     [1058, 1072, 1081, 1084, 1072, 1091, 1090, 32, 1079, 1072, 1087, 1088, 1086, 1089, 1072]"

definition connection_reason :: pystr where
  "connection_reason =
     [1054, 1096, 1080, 1073, 1082, 1072, 32, 1089, 1086, 1077, 1076, 1080, 1085, 1077, 1085,
      1080, 1103]"

definition unexpected_reason :: pystr where
  "unexpected_reason =
     [1053, 1077, 1086, 1078, 1080, 1076, 1072, 1085, 1085, 1072, 1103, 32, 1086, 1096, 1080,
      1073, 1082, 1072]"

definition exhausted_reason :: pystr where
  "exhausted_reason =
     [1042, 1089, 1077, 32, 1087, 1086, 1087, 1099, 1090, 1082, 1080, 32, 1080, 1089, 1095,
      1077, 1088, 1087, 1072, 1085, 1099]"

text \<open>
  The loop \<open>for attempt in range(max_retries)\<close> of \<open>generate_text\<close> from \<open>attempt\<close> on, and
  the statements after it. \<open>last_error\<close> is the variable of that name. Each attempt runs
  the body of the \<open>try\<close> on the client as the attempts before left it.
\<close>

function retry_loop ::
  "(nat \<Rightarrow> request \<Rightarrow> api_outcome) \<Rightarrow> request \<Rightarrow> int \<Rightarrow> nat \<Rightarrow> foreign_exception option \<Rightarrow>
   client \<Rightarrow> world \<Rightarrow> (app_exception + pystr) \<times> client \<times> world" where
  "retry_loop remote req max_retries attempt last_error c w =
     (if int attempt < max_retries then
        (let w1 = w\<lparr>calls := calls w @ [req]\<rparr> in
         case try_body (remote (length (calls w)) req) c of
           (Inr generated_text, c1) \<Rightarrow> (Inr generated_text, c1, w1)
         | (Inl (OpenAIRateLimitError e retry_after), c1) \<Rightarrow>
             (Inl (RateLimitError_new retry_after),
              c1\<lparr>failed_requests := failed_requests c1 + 1\<rparr>, w1)
         | (Inl (APITimeoutError e), c1) \<Rightarrow>
             (if int attempt < max_retries - 1
              then retry_loop remote req max_retries (Suc attempt) (Some e) c1
                     (w1\<lparr>sleeps := sleeps w1 @ [2 ^ attempt]\<rparr>)
              else (Inl (OpenAIError_new timeout_reason (Some e) (int attempt + 1)),
                    c1\<lparr>failed_requests := failed_requests c1 + 1\<rparr>, w1))
         | (Inl (APIConnectionError e), c1) \<Rightarrow>
             (if int attempt < max_retries - 1
              then retry_loop remote req max_retries (Suc attempt) (Some e) c1
                     (w1\<lparr>sleeps := sleeps w1 @ [2 ^ attempt]\<rparr>)
              else (Inl (OpenAIError_new connection_reason (Some e) (int attempt + 1)),
                    c1\<lparr>failed_requests := failed_requests c1 + 1\<rparr>, w1))
         | (Inl (APIError e), c1) \<Rightarrow>
             (Inl (OpenAIError_new (exc_str e) (Some e) (int attempt + 1)),
              c1\<lparr>failed_requests := failed_requests c1 + 1\<rparr>, w1)
         | (Inl (UnexpectedError e), c1) \<Rightarrow>
             (if int attempt < max_retries - 1
              then retry_loop remote req max_retries (Suc attempt) (Some e) c1
                     (w1\<lparr>sleeps := sleeps w1 @ [2 ^ attempt]\<rparr>)
              else (Inl (OpenAIError_new unexpected_reason (Some e) (int attempt + 1)),
                    c1\<lparr>failed_requests := failed_requests c1 + 1\<rparr>, w1)))
      else
        (Inl (OpenAIError_new exhausted_reason last_error max_retries),
         c\<lparr>failed_requests := failed_requests c + 1\<rparr>, w))"
  by pat_completeness auto
termination
  by (relation "measure (\<lambda>(remote, req, max_retries, attempt, last_error, c, w).
                  nat (max_retries - int attempt))") auto

declare retry_loop.simps [simp del]

text \<open>
  The message list \<open>generate_text\<close> builds: the system message when \<open>system_prompt\<close> is
  given and not empty, then the user message.
\<close>

definition chat_messages :: "pystr \<Rightarrow> pystr option \<Rightarrow> chat_message list" where
  "chat_messages prompt system_prompt =
     (case system_prompt of None \<Rightarrow> []
      | Some sp \<Rightarrow> if sp = [] then [] else [\<lparr>role = asc ''system'', content = sp\<rparr>])
     @ [\<lparr>role = asc ''user'', content = prompt\<rparr>]"

text \<open>
  \<open>generate_text(prompt, system_prompt, max_retries)\<close>: the message list, then the loop
  from attempt 0. The result is the returned text or the raised exception, with the
  client and the world as the call leaves them.
\<close>

definition generate_text ::
  "(nat \<Rightarrow> request \<Rightarrow> api_outcome) \<Rightarrow> client \<Rightarrow> world \<Rightarrow> pystr \<Rightarrow> pystr option \<Rightarrow> int \<Rightarrow>
   (app_exception + pystr) \<times> client \<times> world" where
  "generate_text remote c w prompt system_prompt max_retries =
     retry_loop remote
       \<lparr>req_model = model c, req_messages = chat_messages prompt system_prompt\<rparr>
       max_retries 0 None c w"

text \<open>
  \<open>round(x, 2)\<close>, and the arithmetic of the rate before it. The code computes on binary
  floats; the model computes on exact reals and rounds half to even. The two agree where
  the quotient, the product and the rounded value are exactly representable (as 0, 50
  and 100 are), and may differ in the last decimal elsewhere.
\<close>

definition round_half_even :: "real \<Rightarrow> int" where
  "round_half_even x =
     (let f = \<lfloor>x\<rfloor>; d = x - of_int f
      in if d < 1 / 2 then f else if 1 / 2 < d then f + 1 else if even f then f else f + 1)"

definition py_round2 :: "real \<Rightarrow> real" where
  "py_round2 x = of_int (round_half_even (x * 100)) / 100"

text \<open>\<open>get_statistics()\<close>: the returned dictionary has five fixed keys.\<close>

record statistics =
  stat_total_requests :: int
  stat_failed_requests :: int
  stat_success_rate :: real
  stat_total_tokens :: int
  stat_model :: pystr

definition get_statistics :: "client \<Rightarrow> statistics" where
  "get_statistics c =
     (let success_rate =
            (if total_requests c > 0
             then of_int (total_requests c - failed_requests c) / of_int (total_requests c) * 100
             else 0)
      in \<lparr>stat_total_requests = total_requests c,
          stat_failed_requests = failed_requests c,
          stat_success_rate = py_round2 success_rate,
          stat_total_tokens = total_tokens c,
          stat_model = model c\<rparr>)"

text \<open>
  A sequence of \<open>generate_text\<close> invocations on one client, each with its prompt, system
  prompt and \<open>max_retries\<close>; the result of each is recorded.
\<close>

fun run_invocations ::
  "(nat \<Rightarrow> request \<Rightarrow> api_outcome) \<Rightarrow> client \<Rightarrow> world \<Rightarrow> (pystr \<times> pystr option \<times> int) list \<Rightarrow>
   (app_exception + pystr) list \<times> client \<times> world" where
  "run_invocations remote c w [] = ([], c, w)"
| "run_invocations remote c w ((prompt, system_prompt, max_retries) # rest) =
     (case generate_text remote c w prompt system_prompt max_retries of
        (r, c1, w1) \<Rightarrow>
          (case run_invocations remote c1 w1 rest of (rs, c2, w2) \<Rightarrow> (r # rs, c2, w2)))"


section \<open>agent.py: the post generation pipeline\<close>

text \<open>One entry of \<open>STYLES\<close>.\<close>

record style_data =
  style_id :: pystr
  name :: pystr
  description :: pystr
  emoji :: pystr
  system_prompt :: pystr
  user_prompt_template :: pystr

text \<open>The entry of \<open>STYLES\<close> with the identifier \<open>ironic\<close>: its key and its fields.\<close>

definition ironic_key :: pystr where
  "ironic_key =
     [1080, 1088, 1086, 1085, 1080, 1095, 1085, 1099, 1081]"

definition ironic_style :: style_data where
  "ironic_style =
     \<lparr>style_id = asc ''ironic'',
      name =
         [1048, 1088, 1086, 1085, 1080, 1095, 1085, 1099, 1081],
      description =
         [1051, 1077, 1075, 1082, 1072, 1103, 32, 1080, 1088, 1086, 1085, 1080, 1103, 32, 1080,
          32, 1089, 1072, 1084, 1086, 1080, 1088, 1086, 1085, 1080, 1103, 44, 32, 1091, 1084,
          1085, 1099, 1081, 32, 1102, 1084, 1086, 1088],
      emoji =
         [128527],
      system_prompt =
         [1058, 1099, 32, 1082, 1088, 1077, 1072, 1090, 1080, 1074, 1085, 1099, 1081, 32, 1072,
          1074, 1090, 1086, 1088, 32, 1087, 1086, 1089, 1090, 1086, 1074, 32, 1076, 1083, 1103,
          32, 1089, 1086, 1094, 1080, 1072, 1083, 1100, 1085, 1099, 1093, 32, 1089, 1077, 1090,
          1077, 1081, 46, 32, 1058, 1074, 1086, 1081, 32, 1089, 1090, 1080, 1083, 1100, 32, 45,
          32, 1083, 1077, 1075, 1082, 1072, 1103, 32, 1080, 1088, 1086, 1085, 1080, 1103, 44, 32,
          1089, 1072, 1084, 1086, 1080, 1088, 1086, 1085, 1080, 1103, 32, 1080, 32, 1091, 1084,
          1085, 1099, 1081, 32, 1102, 1084, 1086, 1088, 46, 32, 1058, 1099, 32, 1087, 1080, 1096,
          1077, 1096, 1100, 32, 1091, 1074, 1083, 1077, 1082, 1072, 1090, 1077, 1083, 1100, 1085,
          1086, 44, 32, 1085, 1086, 32, 1085, 1077, 32, 1087, 1077, 1088, 1077, 1093, 1086, 1076,
          1080, 1096, 1100, 32, 1075, 1088, 1072, 1085, 1100, 32, 1074, 32, 1089, 1072, 1088,
          1082, 1072, 1079, 1084, 46, 32, 1048, 1089, 1087, 1086, 1083, 1100, 1079, 1091, 1077,
          1096, 1100, 32, 1101, 1084, 1086, 1076, 1079, 1080, 32, 1091, 1084, 1077, 1088, 1077,
          1085, 1085, 1086, 32, 1080, 32, 1082, 32, 1084, 1077, 1089, 1090, 1091, 46],
      user_prompt_template =
         [1053, 1072, 32, 1086, 1089, 1085, 1086, 1074, 1077, 32, 1101, 1090, 1086, 1075, 1086,
          32, 1090, 1077, 1082, 1089, 1090, 1072, 32, 1085, 1072, 1087, 1080, 1096, 1080, 32,
          1082, 1086, 1088, 1086, 1090, 1082, 1080, 1081, 32, 1080, 1088, 1086, 1085, 1080, 1095,
          1085, 1099, 1081, 32, 1087, 1086, 1089, 1090, 32, 1076, 1083, 1103, 32, 1089, 1086,
          1094, 1080, 1072, 1083, 1100, 1085, 1099, 1093, 32, 1089, 1077, 1090, 1077, 1081, 32,
          40, 1084, 1072, 1082, 1089, 1080, 1084, 1091, 1084, 32, 56, 48, 48, 32, 1089, 1080,
          1084, 1074, 1086, 1083, 1086, 1074, 41, 46, 32, 1055, 1086, 1089, 1090, 32, 1076, 1086,
          1083, 1078, 1077, 1085, 32, 1073, 1099, 1090, 1100, 32, 1086, 1089, 1090, 1088, 1086,
          1091, 1084, 1085, 1099, 1084, 44, 32, 1080, 1085, 1090, 1077, 1088, 1077, 1089, 1085,
          1099, 1084, 32, 1080, 32, 1094, 1077, 1087, 1083, 1103, 1102, 1097, 1080, 1084, 32,
          1074, 1085, 1080, 1084, 1072, 1085, 1080, 1077, 46, 10, 10, 1058, 1077, 1082, 1089,
          1090, 58, 32, 123, 116, 101, 120, 116, 125]\<rparr>"

text \<open>The entry of \<open>STYLES\<close> with the identifier \<open>professional\<close>: its key and its fields.\<close>

definition professional_key :: pystr where
  "professional_key =
     [1087, 1088, 1086, 1092, 1077, 1089, 1089, 1080, 1086, 1085, 1072, 1083, 1100, 1085, 1099,
      1081]"

definition professional_style :: style_data where
  "professional_style =
     \<lparr>style_id = asc ''professional'',
      name =
         [1055, 1088, 1086, 1092, 1077, 1089, 1089, 1080, 1086, 1085, 1072, 1083, 1100, 1085,
          1099, 1081],
      description =
         [1044, 1077, 1083, 1086, 1074, 1086, 1081, 32, 1080, 32, 1080, 1085, 1092, 1086, 1088,
          1084, 1072, 1090, 1080, 1074, 1085, 1099, 1081, 32, 1089, 1090, 1080, 1083, 1100],
      emoji =
         [128188],
      system_prompt =
         [1058, 1099, 32, 1087, 1088, 1086, 1092, 1077, 1089, 1089, 1080, 1086, 1085, 1072, 1083,
          1100, 1085, 1099, 1081, 32, 1082, 1086, 1085, 1090, 1077, 1085, 1090, 45, 1084, 1077,
          1085, 1077, 1076, 1078, 1077, 1088, 46, 32, 1058, 1074, 1086, 1081, 32, 1089, 1090,
          1080, 1083, 1100, 32, 45, 32, 1076, 1077, 1083, 1086, 1074, 1086, 1081, 44, 32, 1080,
          1085, 1092, 1086, 1088, 1084, 1072, 1090, 1080, 1074, 1085, 1099, 1081, 32, 1080, 32,
          1089, 1090, 1088, 1091, 1082, 1090, 1091, 1088, 1080, 1088, 1086, 1074, 1072, 1085,
          1085, 1099, 1081, 46, 32, 1058, 1099, 32, 1087, 1080, 1096, 1077, 1096, 1100, 32, 1095,
          1077, 1090, 1082, 1086, 44, 32, 1087, 1086, 32, 1089, 1091, 1097, 1077, 1089, 1090,
          1074, 1091, 44, 32, 1087, 1086, 1076, 1095, 1077, 1088, 1082, 1080, 1074, 1072, 1077,
          1096, 1100, 32, 1082, 1083, 1102, 1095, 1077, 1074, 1099, 1077, 32, 1084, 1086, 1084,
          1077, 1085, 1090, 1099, 46, 32, 1048, 1079, 1073, 1077, 1075, 1072, 1077, 1096, 1100,
          32, 1083, 1080, 1096, 1085, 1080, 1093, 32, 1101, 1084, 1086, 1094, 1080, 1081, 44, 32,
          1085, 1086, 32, 1086, 1089, 1090, 1072, 1077, 1096, 1100, 1089, 1103, 32, 1080, 1085,
          1090, 1077, 1088, 1077, 1089, 1085, 1099, 1084, 46],
      user_prompt_template =
         [1053, 1072, 32, 1086, 1089, 1085, 1086, 1074, 1077, 32, 1101, 1090, 1086, 1075, 1086,
          32, 1090, 1077, 1082, 1089, 1090, 1072, 32, 1085, 1072, 1087, 1080, 1096, 1080, 32,
          1082, 1086, 1088, 1086, 1090, 1082, 1080, 1081, 32, 1087, 1088, 1086, 1092, 1077, 1089,
          1089, 1080, 1086, 1085, 1072, 1083, 1100, 1085, 1099, 1081, 32, 1087, 1086, 1089, 1090,
          32, 1076, 1083, 1103, 32, 1089, 1086, 1094, 1080, 1072, 1083, 1100, 1085, 1099, 1093,
          32, 1089, 1077, 1090, 1077, 1081, 32, 40, 1084, 1072, 1082, 1089, 1080, 1084, 1091,
          1084, 32, 56, 48, 48, 32, 1089, 1080, 1084, 1074, 1086, 1083, 1086, 1074, 41, 46, 32,
          1055, 1086, 1089, 1090, 32, 1076, 1086, 1083, 1078, 1077, 1085, 32, 1073, 1099, 1090,
          1100, 32, 1080, 1085, 1092, 1086, 1088, 1084, 1072, 1090, 1080, 1074, 1085, 1099, 1084,
          44, 32, 1089, 1090, 1088, 1091, 1082, 1090, 1091, 1088, 1080, 1088, 1086, 1074, 1072,
          1085, 1085, 1099, 1084, 32, 1080, 32, 1087, 1086, 1083, 1077, 1079, 1085, 1099, 1084,
          46, 10, 10, 1058, 1077, 1082, 1089, 1090, 58, 32, 123, 116, 101, 120, 116, 125]\<rparr>"

text \<open>The entry of \<open>STYLES\<close> with the identifier \<open>motivational\<close>: its key and its fields.\<close>

definition motivational_key :: pystr where
  "motivational_key =
     [1084, 1086, 1090, 1080, 1074, 1072, 1094, 1080, 1086, 1085, 1085, 1099, 1081]"

definition motivational_style :: style_data where
  "motivational_style =
     \<lparr>style_id = asc ''motivational'',
      name =
         [1052, 1086, 1090, 1080, 1074, 1072, 1094, 1080, 1086, 1085, 1085, 1099, 1081],
      description =
         [1042, 1076, 1086, 1093, 1085, 1086, 1074, 1083, 1103, 1102, 1097, 1080, 1081, 32, 1080,
          32, 1087, 1086, 1073, 1091, 1078, 1076, 1072, 1102, 1097, 1080, 1081, 32, 1082, 32,
          1076, 1077, 1081, 1089, 1090, 1074, 1080, 1102],
      emoji =
         [128640],
      system_prompt =
         [1058, 1099, 32, 1074, 1076, 1086, 1093, 1085, 1086, 1074, 1083, 1103, 1102, 1097, 1080,
          1081, 32, 1082, 1086, 1091, 1095, 32, 1080, 32, 1084, 1086, 1090, 1080, 1074, 1072,
          1090, 1086, 1088, 46, 32, 1058, 1074, 1086, 1081, 32, 1089, 1090, 1080, 1083, 1100, 32,
          45, 32, 1101, 1085, 1077, 1088, 1075, 1080, 1095, 1085, 1099, 1081, 44, 32, 1087, 1086,
          1079, 1080, 1090, 1080, 1074, 1085, 1099, 1081, 32, 1080, 32, 1087, 1086, 1073, 1091,
          1078, 1076, 1072, 1102, 1097, 1080, 1081, 32, 1082, 32, 1076, 1077, 1081, 1089, 1090,
          1074, 1080, 1102, 46, 32, 1058, 1099, 32, 1074, 1080, 1076, 1080, 1096, 1100, 32, 1074,
          1086, 1079, 1084, 1086, 1078, 1085, 1086, 1089, 1090, 1080, 32, 1074, 1077, 1079, 1076,
          1077, 32, 1080, 32, 1091, 1084, 1077, 1077, 1096, 1100, 32, 1079, 1072, 1088, 1103,
          1078, 1072, 1090, 1100, 32, 1083, 1102, 1076, 1077, 1081, 32, 1101, 1085, 1090, 1091,
          1079, 1080, 1072, 1079, 1084, 1086, 1084, 46, 32, 1048, 1089, 1087, 1086, 1083, 1100,
          1079, 1091, 1077, 1096, 1100, 32, 1084, 1086, 1097, 1085, 1099, 1077, 32, 1084, 1077,
          1090, 1072, 1092, 1086, 1088, 1099, 32, 1080, 32, 1087, 1088, 1080, 1079, 1099, 1074,
          1099, 32, 1082, 32, 1076, 1077, 1081, 1089, 1090, 1074, 1080, 1102, 46],
      user_prompt_template =
         [1053, 1072, 32, 1086, 1089, 1085, 1086, 1074, 1077, 32, 1101, 1090, 1086, 1075, 1086,
          32, 1090, 1077, 1082, 1089, 1090, 1072, 32, 1085, 1072, 1087, 1080, 1096, 1080, 32,
          1082, 1086, 1088, 1086, 1090, 1082, 1080, 1081, 32, 1084, 1086, 1090, 1080, 1074, 1072,
          1094, 1080, 1086, 1085, 1085, 1099, 1081, 32, 1087, 1086, 1089, 1090, 32, 1076, 1083,
          1103, 32, 1089, 1086, 1094, 1080, 1072, 1083, 1100, 1085, 1099, 1093, 32, 1089, 1077,
          1090, 1077, 1081, 32, 40, 1084, 1072, 1082, 1089, 1080, 1084, 1091, 1084, 32, 56, 48,
          48, 32, 1089, 1080, 1084, 1074, 1086, 1083, 1086, 1074, 41, 46, 32, 1055, 1086, 1089,
          1090, 32, 1076, 1086, 1083, 1078, 1077, 1085, 32, 1074, 1076, 1086, 1093, 1085, 1086,
          1074, 1083, 1103, 1090, 1100, 44, 32, 1084, 1086, 1090, 1080, 1074, 1080, 1088, 1086,
          1074, 1072, 1090, 1100, 32, 1080, 32, 1087, 1086, 1073, 1091, 1078, 1076, 1072, 1090,
          1100, 32, 1082, 32, 1076, 1077, 1081, 1089, 1090, 1074, 1080, 1102, 46, 10, 10, 1058,
          1077, 1082, 1089, 1090, 58, 32, 123, 116, 101, 120, 116, 125]\<rparr>"

text \<open>The entry of \<open>STYLES\<close> with the identifier \<open>humorous\<close>: its key and its fields.\<close>

definition humorous_key :: pystr where
  "humorous_key =
     [1102, 1084, 1086, 1088, 1080, 1089, 1090, 1080, 1095, 1077, 1089, 1082, 1080, 1081]"

definition humorous_style :: style_data where
  "humorous_style =
     \<lparr>style_id = asc ''humorous'',
      name =
         [1070, 1084, 1086, 1088, 1080, 1089, 1090, 1080, 1095, 1077, 1089, 1082, 1080, 1081],
      description =
         [1042, 1077, 1089, 1077, 1083, 1099, 1081, 32, 1080, 32, 1088, 1072, 1079, 1074, 1083,
          1077, 1082, 1072, 1090, 1077, 1083, 1100, 1085, 1099, 1081, 32, 1082, 1086, 1085, 1090,
          1077, 1085, 1090],
      emoji =
         [128516],
      system_prompt =
         [1058, 1099, 32, 1090, 1072, 1083, 1072, 1085, 1090, 1083, 1080, 1074, 1099, 1081, 32,
          1082, 1086, 1084, 1077, 1076, 1080, 1081, 1085, 1099, 1081, 32, 1072, 1074, 1090, 1086,
          1088, 46, 32, 1058, 1074, 1086, 1081, 32, 1089, 1090, 1080, 1083, 1100, 32, 45, 32,
          1083, 1077, 1075, 1082, 1080, 1081, 32, 1102, 1084, 1086, 1088, 44, 32, 1085, 1077,
          1086, 1078, 1080, 1076, 1072, 1085, 1085, 1099, 1077, 32, 1087, 1086, 1074, 1086, 1088,
          1086, 1090, 1099, 32, 1080, 32, 1080, 1075, 1088, 1072, 32, 1089, 1083, 1086, 1074, 46,
          32, 1058, 1099, 32, 1091, 1084, 1077, 1077, 1096, 1100, 32, 1088, 1072, 1089, 1089,
          1084, 1077, 1096, 1080, 1090, 1100, 44, 32, 1085, 1077, 32, 1086, 1089, 1082, 1086,
          1088, 1073, 1083, 1103, 1103, 44, 32, 1080, 32, 1088, 1072, 1079, 1074, 1083, 1077,
          1095, 1100, 44, 32, 1086, 1089, 1090, 1072, 1074, 1072, 1103, 1089, 1100, 32, 1091,
          1084, 1085, 1099, 1084, 46, 32, 1058, 1074, 1086, 1080, 32, 1096, 1091, 1090, 1082,
          1080, 32, 1074, 1089, 1077, 1075, 1076, 1072, 32, 1091, 1084, 1077, 1089, 1090, 1085,
          1099, 32, 1080, 32, 1076, 1086, 1073, 1088, 1086, 1076, 1091, 1096, 1085, 1099, 46],
      user_prompt_template =
         [1053, 1072, 32, 1086, 1089, 1085, 1086, 1074, 1077, 32, 1101, 1090, 1086, 1075, 1086,
          32, 1090, 1077, 1082, 1089, 1090, 1072, 32, 1085, 1072, 1087, 1080, 1096, 1080, 32,
          1082, 1086, 1088, 1086, 1090, 1082, 1080, 1081, 32, 1102, 1084, 1086, 1088, 1080, 1089,
          1090, 1080, 1095, 1077, 1089, 1082, 1080, 1081, 32, 1087, 1086, 1089, 1090, 32, 1076,
          1083, 1103, 32, 1089, 1086, 1094, 1080, 1072, 1083, 1100, 1085, 1099, 1093, 32, 1089,
          1077, 1090, 1077, 1081, 32, 40, 1084, 1072, 1082, 1089, 1080, 1084, 1091, 1084, 32, 56,
          48, 48, 32, 1089, 1080, 1084, 1074, 1086, 1083, 1086, 1074, 41, 46, 32, 1055, 1086,
          1089, 1090, 32, 1076, 1086, 1083, 1078, 1077, 1085, 32, 1073, 1099, 1090, 1100, 32,
          1089, 1084, 1077, 1096, 1085, 1099, 1084, 44, 32, 1083, 1077, 1075, 1082, 1080, 1084,
          32, 1080, 32, 1087, 1086, 1076, 1085, 1080, 1084, 1072, 1102, 1097, 1080, 1084, 32,
          1085, 1072, 1089, 1090, 1088, 1086, 1077, 1085, 1080, 1077, 46, 10, 10, 1058, 1077,
          1082, 1089, 1090, 58, 32, 123, 116, 101, 120, 116, 125]\<rparr>"

text \<open>The entry of \<open>STYLES\<close> with the identifier \<open>educational\<close>: its key and its fields.\<close>

definition educational_key :: pystr where
  "educational_key =
     [1086, 1073, 1088, 1072, 1079, 1086, 1074, 1072, 1090, 1077, 1083, 1100, 1085, 1099, 1081]"

definition educational_style :: style_data where
  "educational_style =
     \<lparr>style_id = asc ''educational'',
      name =
         [1054, 1073, 1088, 1072, 1079, 1086, 1074, 1072, 1090, 1077, 1083, 1100, 1085, 1099,
          1081],
      description =
         [1054, 1073, 1091, 1095, 1072, 1102, 1097, 1080, 1081, 32, 1082, 1086, 1085, 1090, 1077,
          1085, 1090, 32, 1089, 32, 1087, 1086, 1083, 1077, 1079, 1085, 1099, 1084, 1080, 32,
          1092, 1072, 1082, 1090, 1072, 1084, 1080],
      emoji =
         [128218],
      system_prompt =
         [1058, 1099, 32, 1086, 1087, 1099, 1090, 1085, 1099, 1081, 32, 1087, 1088, 1077, 1087,
          1086, 1076, 1072, 1074, 1072, 1090, 1077, 1083, 1100, 32, 1080, 32, 1087, 1086, 1087,
          1091, 1083, 1103, 1088, 1080, 1079, 1072, 1090, 1086, 1088, 32, 1079, 1085, 1072, 1085,
          1080, 1081, 46, 32, 1058, 1074, 1086, 1081, 32, 1089, 1090, 1080, 1083, 1100, 32, 45,
          32, 1087, 1086, 1085, 1103, 1090, 1085, 1099, 1081, 44, 32, 1089, 1090, 1088, 1091,
          1082, 1090, 1091, 1088, 1080, 1088, 1086, 1074, 1072, 1085, 1085, 1099, 1081, 32, 1080,
          32, 1087, 1086, 1079, 1085, 1072, 1074, 1072, 1090, 1077, 1083, 1100, 1085, 1099, 1081,
          46, 32, 1058, 1099, 32, 1091, 1084, 1077, 1077, 1096, 1100, 32, 1086, 1073, 1098, 1103,
          1089, 1085, 1103, 1090, 1100, 32, 1089, 1083, 1086, 1078, 1085, 1086, 1077, 32, 1087,
          1088, 1086, 1089, 1090, 1099, 1084, 1080, 32, 1089, 1083, 1086, 1074, 1072, 1084, 1080,
          46, 32, 1042, 1089, 1077, 1075, 1076, 1072, 32, 1076, 1072, 1077, 1096, 1100, 32, 1087,
          1088, 1072, 1082, 1090, 1080, 1095, 1077, 1089, 1082, 1091, 1102, 32, 1094, 1077, 1085,
          1085, 1086, 1089, 1090, 1100, 32, 1080, 32, 1082, 1086, 1085, 1082, 1088, 1077, 1090,
          1085, 1099, 1077, 32, 1079, 1085, 1072, 1085, 1080, 1103, 46],
      user_prompt_template =
         [1053, 1072, 32, 1086, 1089, 1085, 1086, 1074, 1077, 32, 1101, 1090, 1086, 1075, 1086,
          32, 1090, 1077, 1082, 1089, 1090, 1072, 32, 1085, 1072, 1087, 1080, 1096, 1080, 32,
          1082, 1086, 1088, 1086, 1090, 1082, 1080, 1081, 32, 1086, 1073, 1088, 1072, 1079, 1086,
          1074, 1072, 1090, 1077, 1083, 1100, 1085, 1099, 1081, 32, 1087, 1086, 1089, 1090, 32,
          1076, 1083, 1103, 32, 1089, 1086, 1094, 1080, 1072, 1083, 1100, 1085, 1099, 1093, 32,
          1089, 1077, 1090, 1077, 1081, 32, 40, 1084, 1072, 1082, 1089, 1080, 1084, 1091, 1084,
          32, 56, 48, 48, 32, 1089, 1080, 1084, 1074, 1086, 1083, 1086, 1074, 41, 46, 32, 1055,
          1086, 1089, 1090, 32, 1076, 1086, 1083, 1078, 1077, 1085, 32, 1091, 1095, 1080, 1090,
          1100, 44, 32, 1086, 1073, 1098, 1103, 1089, 1085, 1103, 1090, 1100, 32, 1080, 32, 1076,
          1072, 1074, 1072, 1090, 1100, 32, 1087, 1086, 1083, 1077, 1079, 1085, 1091, 1102, 32,
          1080, 1085, 1092, 1086, 1088, 1084, 1072, 1094, 1080, 1102, 46, 10, 10, 1058, 1077,
          1082, 1089, 1090, 58, 32, 123, 116, 101, 120, 116, 125]\<rparr>"

text \<open>The entry of \<open>STYLES\<close> with the identifier \<open>emotional\<close>: its key and its fields.\<close>

definition emotional_key :: pystr where
  "emotional_key =
     [1101, 1084, 1086, 1094, 1080, 1086, 1085, 1072, 1083, 1100, 1085, 1099, 1081]"

definition emotional_style :: style_data where
  "emotional_style =
     \<lparr>style_id = asc ''emotional'',
      name =
         [1069, 1084, 1086, 1094, 1080, 1086, 1085, 1072, 1083, 1100, 1085, 1099, 1081],
      description =
         [1058, 1088, 1086, 1075, 1072, 1090, 1077, 1083, 1100, 1085, 1099, 1081, 44, 32, 1095,
          1091, 1074, 1089, 1090, 1074, 1077, 1085, 1085, 1099, 1081, 32, 1080, 32, 1087, 1086,
          1101, 1090, 1080, 1095, 1085, 1099, 1081, 32, 1089, 1090, 1080, 1083, 1100],
      emoji =
         [10084, 65039],
      system_prompt =
         [1058, 1099, 32, 1095, 1091, 1074, 1089, 1090, 1074, 1080, 1090, 1077, 1083, 1100, 1085,
          1099, 1081, 32, 1072, 1074, 1090, 1086, 1088, 44, 32, 1091, 1084, 1077, 1102, 1097,
          1080, 1081, 32, 1079, 1072, 1090, 1088, 1072, 1075, 1080, 1074, 1072, 1090, 1100, 32,
          1076, 1091, 1096, 1091, 46, 32, 1058, 1074, 1086, 1081, 32, 1089, 1090, 1080, 1083,
          1100, 32, 45, 32, 1101, 1084, 1086, 1094, 1080, 1086, 1085, 1072, 1083, 1100, 1085,
          1099, 1081, 44, 32, 1080, 1089, 1082, 1088, 1077, 1085, 1085, 1080, 1081, 44, 32, 1075,
          1083, 1091, 1073, 1086, 1082, 1080, 1081, 32, 1080, 32, 1087, 1086, 1101, 1090, 1080,
          1095, 1085, 1099, 1081, 46, 32, 1058, 1099, 32, 1087, 1080, 1096, 1077, 1096, 1100, 32,
          1086, 32, 1090, 1086, 1084, 44, 32, 1095, 1090, 1086, 32, 1074, 1072, 1078, 1085, 1086,
          44, 32, 1095, 1090, 1086, 32, 1090, 1088, 1086, 1075, 1072, 1077, 1090, 32, 1089, 1077,
          1088, 1076, 1094, 1072, 32, 1080, 32, 1074, 1099, 1079, 1099, 1074, 1072, 1077, 1090,
          32, 1086, 1090, 1082, 1083, 1080, 1082, 46, 32, 1048, 1089, 1087, 1086, 1083, 1100,
          1079, 1091, 1077, 1096, 1100, 32, 1086, 1073, 1088, 1072, 1079, 1085, 1099, 1077, 32,
          1089, 1088, 1072, 1074, 1085, 1077, 1085, 1080, 1103, 44, 32, 1084, 1077, 1090, 1072,
          1092, 1086, 1088, 1099, 32, 1080, 32, 1101, 1084, 1086, 1094, 1080, 1086, 1085, 1072,
          1083, 1100, 1085, 1099, 1077, 32, 1090, 1088, 1080, 1075, 1075, 1077, 1088, 1099, 46,
          32, 1058, 1074, 1086, 1080, 32, 1089, 1083, 1086, 1074, 1072, 32, 1074, 1076, 1086,
          1093, 1085, 1086, 1074, 1083, 1103, 1102, 1090, 32, 1080, 32, 1089, 1086, 1079, 1076,
          1072, 1102, 1090, 32, 1101, 1084, 1086, 1094, 1080, 1086, 1085, 1072, 1083, 1100, 1085,
          1091, 1102, 32, 1089, 1074, 1103, 1079, 1100, 32, 1089, 32, 1095, 1080, 1090, 1072,
          1090, 1077, 1083, 1077, 1084, 46],
      user_prompt_template =
         [1053, 1072, 32, 1086, 1089, 1085, 1086, 1074, 1077, 32, 1101, 1090, 1086, 1075, 1086,
          32, 1090, 1077, 1082, 1089, 1090, 1072, 32, 1085, 1072, 1087, 1080, 1096, 1080, 32,
          1082, 1086, 1088, 1086, 1090, 1082, 1080, 1081, 32, 1101, 1084, 1086, 1094, 1080, 1086,
          1085, 1072, 1083, 1100, 1085, 1099, 1081, 32, 1087, 1086, 1089, 1090, 32, 1076, 1083,
          1103, 32, 1089, 1086, 1094, 1080, 1072, 1083, 1100, 1085, 1099, 1093, 32, 1089, 1077,
          1090, 1077, 1081, 32, 40, 1084, 1072, 1082, 1089, 1080, 1084, 1091, 1084, 32, 56, 48,
          48, 32, 1089, 1080, 1084, 1074, 1086, 1083, 1086, 1074, 41, 46, 32, 1055, 1086, 1089,
          1090, 32, 1076, 1086, 1083, 1078, 1077, 1085, 32, 1090, 1088, 1086, 1075, 1072, 1090,
          1100, 44, 32, 1074, 1099, 1079, 1099, 1074, 1072, 1090, 1100, 32, 1095, 1091, 1074,
          1089, 1090, 1074, 1072, 32, 1080, 32, 1088, 1077, 1079, 1086, 1085, 1080, 1088, 1086,
          1074, 1072, 1090, 1100, 32, 1089, 32, 1095, 1080, 1090, 1072, 1090, 1077, 1083, 1077,
          1084, 46, 10, 10, 1058, 1077, 1082, 1089, 1090, 58, 32, 123, 116, 101, 120, 116, 125]\<rparr>"

text \<open>\<open>STYLES\<close>, in the order of the dictionary display, and \<open>DEFAULT_STYLE\<close>.\<close>

definition STYLES :: "(pystr \<times> style_data) list" where
  "STYLES =
     [(ironic_key, ironic_style),
      (professional_key, professional_style),
      (motivational_key, motivational_style),
      (humorous_key, humorous_style),
      (educational_key, educational_style),
      (emotional_key, emotional_style)]"

definition DEFAULT_STYLE :: pystr where
  "DEFAULT_STYLE =
     [1080, 1088, 1086, 1085, 1080, 1095, 1085, 1099, 1081]"

text \<open>The values of \<open>settings\<close> the pipeline reads.\<close>

record settings =
  min_text_length :: int
  max_post_length :: int

text \<open>\<open>urlparse(url)\<close>: the two components \<open>validate_url\<close> reads.\<close>

record parse_result =
  scheme :: pystr
  netloc :: pystr

text \<open>
  \<open>validate_url\<close>. \<open>validators.url\<close> and \<open>urlparse\<close> are library functions and are
  parameters: \<open>valid\<close> is the truth value of \<open>validators.url(url)\<close>.
\<close>

definition validate_url ::
  "(pystr \<Rightarrow> bool) \<Rightarrow> (pystr \<Rightarrow> parse_result) \<Rightarrow> pystr \<Rightarrow> app_exception + pystr" where
  "validate_url valid urlparse url =
     (if url = [] \<or> strip url = [] then
        Inl (URLValidationError_new url (Some url_empty_reason))
      else
        (let url1 = strip url in
         if \<not> valid url1 then
           Inl (URLValidationError_new url1 (Some url_format_reason))
         else
           (let parsed = urlparse url1 in
            if scheme parsed \<noteq> asc ''http'' \<and> scheme parsed \<noteq> asc ''https'' then
              Inl (URLValidationError_new url1
                     (Some (scheme_reason_prefix @ scheme parsed)))
            else if netloc parsed = [] then
              Inl (URLValidationError_new url1 (Some no_host_reason))
            else Inr url1)))"

text \<open>
  \<open>fetch_html\<close> performs the HTTP exchange; each of its paths returns the page text or
  raises URLFetchError (its last handler turns every other exception into one). The
  exchange is a parameter \<open>http\<close>: the text, or the reason and the status code the raised
  URLFetchError is built with.
\<close>

record fetch_failure =
  fail_reason :: "pystr option"
  fail_status :: "int option"

definition fetch_html :: "(pystr \<Rightarrow> fetch_failure + pystr) \<Rightarrow> pystr \<Rightarrow> app_exception + pystr" where
  "fetch_html http url =
     (case http url of
        Inl f \<Rightarrow> Inl (URLFetchError_new url (fail_reason f) (fail_status f))
      | Inr html \<Rightarrow> Inr html)"

text \<open>\<open>clean_text\<close>: the two \<open>re.sub\<close> calls, then \<open>strip\<close>.\<close>

definition clean_text :: "pystr \<Rightarrow> pystr" where
  "clean_text text =
     strip (sub_runs (\<lambda>c. c = 10) [10] (sub_runs isspace [32] text))"

text \<open>
  \<open>extract_text\<close>. Parsing the markup, choosing the container and \<open>get_text\<close> are
  BeautifulSoup's and are a parameter \<open>get_text\<close>: the text found, or the exception raised
  on the way.
\<close>

definition extract_text ::
  "(pystr \<Rightarrow> foreign_exception + pystr) \<Rightarrow> pystr \<Rightarrow> app_exception + pystr" where
  "extract_text get_text html =
     (case get_text html of
        Inl e \<Rightarrow> Inl (TextExtractionError_new (asc ''unknown'') (Some (exc_str e)))
      | Inr text \<Rightarrow> Inr (clean_text text))"

text \<open>\<open>validate_text_length\<close>.\<close>

definition validate_text_length :: "settings \<Rightarrow> pystr \<Rightarrow> pystr \<Rightarrow> app_exception + unit" where
  "validate_text_length st text url =
     (if int (length text) < min_text_length st then
        Inl (TextExtractionError_new url
               (Some (short_text_prefix @ str_int (int (length text)) @ characters_suffix)))
      else Inr ())"

text \<open>
  \<open>validate_style\<close>. \<open>str.lower\<close> is a parameter. \<open>style in self.STYLES\<close> asks for a key;
  the loop returns the key of the first entry with the identifier.
\<close>

definition validate_style :: "(pystr \<Rightarrow> pystr) \<Rightarrow> pystr option \<Rightarrow> pystr" where
  "validate_style lower style =
     (case style of
        None \<Rightarrow> DEFAULT_STYLE
      | Some s0 \<Rightarrow>
          if s0 = [] then DEFAULT_STYLE
          else
            (let s = strip (lower s0) in
             if s \<in> set (map fst STYLES) then s
             else (case find (\<lambda>(style_name, style_data). style_id style_data = s) STYLES of
                     Some (style_name, style_data) \<Rightarrow> style_name
                   | None \<Rightarrow> DEFAULT_STYLE)))"

text \<open>
  Step 3 of \<open>generate_post\<close>: \<open>max_length or settings.max_post_length\<close>, then the two
  comparisons with 400 and 4000.
\<close>

definition post_max_length :: "settings \<Rightarrow> int option \<Rightarrow> int" where
  "post_max_length st max_length =
     (let p = (case max_length of None \<Rightarrow> max_post_length st
               | Some m \<Rightarrow> if m = 0 then max_post_length st else m)
      in if p < 400 then 400 else if p > 4000 then 4000 else p)"

text \<open>Step 6: the extracted text is cut to 3000 characters for the prompt.\<close>

definition limit_prompt_text :: "pystr \<Rightarrow> pystr" where
  "limit_prompt_text text = (if length text > 3000 then take 3000 text @ asc ''...'' else text)"

text \<open>
  Step 7: \<open>template.format(text=text)\<close>, then the default length phrase is replaced. The
  templates of \<open>STYLES\<close> hold the field \<open>{text}\<close> and no other brace, so \<open>format\<close> puts the
  text in the place of that field.
\<close>

definition build_user_prompt :: "style_data \<Rightarrow> pystr \<Rightarrow> int \<Rightarrow> pystr" where
  "build_user_prompt style_config text pml =
     replace_str default_length_phrase
       (maximum_prefix @ str_int pml @ characters_suffix)
       (replace_str (asc ''{text}'') text (user_prompt_template style_config))"

text \<open>Step 9 after the trim: the cut at the last space of the first \<open>pml\<close> characters.\<close>

definition finalize_post :: "pystr \<Rightarrow> int \<Rightarrow> pystr" where
  "finalize_post post pml =
     (if int (length post) > pml
      then rsplit_space_head (take (nat pml) post) @ asc ''...''
      else post)"

text \<open>Everything outside the program that one run of the pipeline meets.\<close>

record environment =
  validators_url :: "pystr \<Rightarrow> bool"
  urlparse :: "pystr \<Rightarrow> parse_result"
  str_lower :: "pystr \<Rightarrow> pystr"
  http_get :: "pystr \<Rightarrow> fetch_failure + pystr"
  soup_get_text :: "pystr \<Rightarrow> foreign_exception + pystr"
  remote :: "nat \<Rightarrow> request \<Rightarrow> api_outcome"

text \<open>
  \<open>generate_post(url, style, max_length)\<close> on a client \<open>c\<close> in a world \<open>w\<close>: the returned
  post or the raised exception, with the client and the world as the call leaves them.
  \<open>self.STYLES[style]\<close> raises KeyError for a missing key.
\<close>

definition generate_post ::
  "environment \<Rightarrow> settings \<Rightarrow> client \<Rightarrow> world \<Rightarrow> pystr \<Rightarrow> pystr option \<Rightarrow> int option \<Rightarrow>
   (py_exception + pystr) \<times> client \<times> world" where
  "generate_post env st c w url style max_length =
     (case validate_url (validators_url env) (urlparse env) url of
        Inl e \<Rightarrow> (Inl (AppException e), c, w)
      | Inr url1 \<Rightarrow>
          (let style1 = validate_style (str_lower env) style in
           case map_of STYLES style1 of
             None \<Rightarrow>
               (Inl (OtherException
                       \<lparr>exc_type = asc ''KeyError'', exc_str = [39] @ style1 @ [39]\<rparr>), c, w)
           | Some style_config \<Rightarrow>
               (let pml = post_max_length st max_length in
                case fetch_html (http_get env) url1 of
                  Inl e \<Rightarrow> (Inl (AppException e), c, w)
                | Inr html \<Rightarrow>
                    (case extract_text (soup_get_text env) html of
                       Inl e \<Rightarrow> (Inl (AppException e), c, w)
                     | Inr text \<Rightarrow>
                         (case validate_text_length st text url1 of
                            Inl e \<Rightarrow> (Inl (AppException e), c, w)
                          | Inr _ \<Rightarrow>
                              (case generate_text (remote env) c w
                                      (build_user_prompt style_config (limit_prompt_text text) pml)
                                      (Some (system_prompt style_config)) 3 of
                                 (Inl e, c1, w1) \<Rightarrow>
                                   (Inl (AppException
                                           (PostGenerationError_new (message e) (Some url1)
                                              (Some style1))), c1, w1)
                               | (Inr post, c1, w1) \<Rightarrow>
                                   (Inr (finalize_post (strip post) pml), c1, w1)))))))"


section \<open>Predicates of the statements\<close>

text \<open>
  No two neighbouring characters of the string are both whitespace; the string starts,
  or ends, with a whitespace character.
\<close>

fun no_adjacent_space :: "pystr \<Rightarrow> bool" where
  "no_adjacent_space [] = True"
| "no_adjacent_space [c] = True"
| "no_adjacent_space (c # d # cs) = (\<not> (isspace c \<and> isspace d) \<and> no_adjacent_space (d # cs))"

fun leading_space :: "pystr \<Rightarrow> bool" where
  "leading_space [] = False"
| "leading_space (c # cs) = isspace c"

definition trailing_space :: "pystr \<Rightarrow> bool" where
  "trailing_space s = leading_space (rev s)"

text \<open>
  The inputs \<open>validate_url\<close> is to refuse: empty or blank, refused by the structural
  validation, of a scheme other than http and https, or with an empty host. The last
  three are read off the trimmed input, as the code does.
\<close>

definition unusable_url :: "(pystr \<Rightarrow> bool) \<Rightarrow> (pystr \<Rightarrow> parse_result) \<Rightarrow> pystr \<Rightarrow> bool" where
  "unusable_url valid parse url \<longleftrightarrow>
     url = [] \<or> strip url = [] \<or> \<not> valid (strip url) \<or>
     (scheme (parse (strip url)) \<noteq> asc ''http'' \<and> scheme (parse (strip url)) \<noteq> asc ''https'') \<or>
     netloc (parse (strip url)) = []"

text \<open>
  The identifiers of the style table, in its order.
\<close>

definition style_ids :: "pystr list" where
  "style_ids = map (\<lambda>(style_name, style_data). style_id style_data) STYLES"

text \<open>
  The success rate as the specification words it: \<open>N / (N + M) * 100\<close> rounded to 2
  decimals for \<open>N\<close> successful and \<open>M\<close> failed generations, and 0 when there were none.
\<close>

definition claimed_success_rate :: "nat \<Rightarrow> nat \<Rightarrow> real" where
  "claimed_success_rate n m =
     (if n + m = 0 then 0 else py_round2 (real n / real (n + m) * 100))"


section \<open>Concrete inputs\<close>

text \<open>
  Stand-ins for the library functions at the concrete inputs below: the ASCII part of
  \<open>str.lower\<close>, and \<open>urlparse\<close> on the two shapes of URL used.
\<close>

definition ascii_lower :: "pystr \<Rightarrow> pystr" where
  "ascii_lower s = map (\<lambda>c. if 65 \<le> c \<and> c \<le> 90 then c + 32 else c) s"

definition demo_urlparse :: "pystr \<Rightarrow> parse_result" where
  "demo_urlparse u =
     (if take 8 u = asc ''https://'' then \<lparr>scheme = asc ''https'', netloc = drop 8 u\<rparr>
      else \<lparr>scheme = takeWhile (\<lambda>c. c \<noteq> 58) u, netloc = []\<rparr>)"

text \<open>
  A new client, a world in which nothing was sent yet, two provider exceptions, the
  request of the prompt \<open>hi\<close> without a system prompt, and a reply with a token count.
\<close>

definition demo_client :: client where
  "demo_client = new_client (asc ''gpt-4o'')"

definition empty_world :: world where
  "empty_world = \<lparr>calls = [], sleeps = []\<rparr>"

definition demo_timeout :: foreign_exception where
  "demo_timeout = \<lparr>exc_type = asc ''APITimeoutError'', exc_str = asc ''Request timed out.''\<rparr>"

definition demo_rate_limit :: foreign_exception where
  "demo_rate_limit = \<lparr>exc_type = asc ''RateLimitError'', exc_str = asc ''Error code: 429''\<rparr>"

definition demo_request :: request where
  "demo_request = \<lparr>req_model = asc ''gpt-4o'', req_messages = chat_messages (asc ''hi'') None\<rparr>"

definition demo_reply :: "pystr \<Rightarrow> response" where
  "demo_reply text = \<lparr>first_content = Inr text, usage_tokens = Some (Inr 7)\<rparr>"



definition remote_limited :: "int option \<Rightarrow> nat \<Rightarrow> request \<Rightarrow> api_outcome" where
  "remote_limited hint n q =
     (if n = 0 then Raised (APITimeoutError demo_timeout)
      else Raised (OpenAIRateLimitError demo_rate_limit hint))"

definition remote_once :: "nat \<Rightarrow> request \<Rightarrow> api_outcome" where
  "remote_once n q =
     (if n = 0 then Completed (demo_reply (asc ''ok''))
      else Raised (OpenAIRateLimitError demo_rate_limit None))"

text \<open>
  A provider whose replies have a text and a \<open>total_tokens\<close> of \<open>None\<close>, and the TypeError
  that adding it raises.
\<close>

definition demo_type_error :: foreign_exception where
  "demo_type_error =
     \<lparr>exc_type = asc ''TypeError'',
      exc_str = asc ''unsupported operand type(s) for +=: '' @ [39] @ asc ''int'' @ [39] @
                asc '' and '' @ [39] @ asc ''NoneType'' @ [39]\<rparr>"

definition remote_miscounted :: "nat \<Rightarrow> request \<Rightarrow> api_outcome" where
  "remote_miscounted n q =
     Completed \<lparr>first_content = Inr (asc ''ok''), usage_tokens = Some (Inl demo_type_error)\<rparr>"

text \<open>
  The default settings, and an environment in which every URL is well formed, the page
  at every URL is \<open>page\<close> inside a paragraph element, and the provider always replies
  \<open>reply\<close>.
\<close>

definition demo_settings :: settings where
  "demo_settings = \<lparr>min_text_length = 100, max_post_length = 800\<rparr>"

definition demo_env :: "pystr \<Rightarrow> pystr \<Rightarrow> environment" where
  "demo_env page reply =
     \<lparr>validators_url = (\<lambda>u. True),
      urlparse = demo_urlparse,
      str_lower = ascii_lower,
      http_get = (\<lambda>u. Inr (asc ''<p>'' @ page @ asc ''</p>'')),
      soup_get_text = (\<lambda>html. Inr (drop 3 (take (length html - 4) html))),
      remote = (\<lambda>n q. Completed \<lparr>first_content = Inr reply, usage_tokens = None\<rparr>)\<rparr>"


section \<open>clean_text: the normal form\<close>

lemma isspace_32: "isspace 32" by (simp add: isspace_def)
lemma isspace_10: "isspace 10" by (simp add: isspace_def)

lemma sub_runs_head: "\<not> P c \<Longrightarrow> sub_runs P r (c # cs) = c # sub_runs P r cs"
  by simp

lemma dropWhile_head: "dropWhile P cs = [] \<or> (\<exists>d ds. dropWhile P cs = d # ds \<and> \<not> P d)"
  by (induction cs) auto

lemma sub_runs_space_only: "c \<in> set (sub_runs isspace [32] s) \<Longrightarrow> isspace c \<Longrightarrow> c = 32"
  by (induction isspace "[32::nat]" s rule: sub_runs.induct) (auto split: if_splits)

lemma no_adjacent_Cons:
  "no_adjacent_space (c # t) \<longleftrightarrow> (\<not> (isspace c \<and> leading_space t)) \<and> no_adjacent_space t"
  by (cases t) auto

lemma sub_runs_leading:
  "leading_space (sub_runs isspace [32] s) = leading_space s"
  by (cases s) (auto simp: isspace_32)

lemma dropWhile_not_leading: "\<not> leading_space (dropWhile isspace cs)"
  by (induction cs) auto

lemma sub_runs_no_adjacent: "no_adjacent_space (sub_runs isspace [32] s)"
proof (induction isspace "[32::nat]" s rule: sub_runs.induct)
  case 1
  show ?case by simp
next
  case (2 c cs)
  show ?case
  proof (cases "isspace c")
    case True
    with 2 have "no_adjacent_space (sub_runs isspace [32] (dropWhile isspace cs))" by simp
    then show ?thesis using True
      by (simp add: no_adjacent_Cons sub_runs_leading dropWhile_not_leading)
  next
    case False
    with 2 have "no_adjacent_space (sub_runs isspace [32] cs)" by simp
    then show ?thesis using False by (simp add: no_adjacent_Cons)
  qed
qed

lemma sub_runs_absent: "\<forall>c \<in> set s. \<not> P c \<Longrightarrow> sub_runs P r s = s"
  by (induction s) auto

lemma no_adjacent_append:
  "no_adjacent_space (xs @ ys) \<Longrightarrow> no_adjacent_space xs \<and> no_adjacent_space ys"
proof (induction xs rule: no_adjacent_space.induct)
  case 1 then show ?case by simp
next
  case (2 c) then show ?case by (simp add: no_adjacent_Cons)
next
  case (3 c d cs) then show ?case by simp
qed

lemma strip_infix: "\<exists>a b. s = a @ strip s @ b"
proof -
  let ?u = "dropWhile isspace s"
  have "s = takeWhile isspace s @ ?u" by simp
  moreover have "?u = rev (dropWhile isspace (rev ?u)) @ rev (takeWhile isspace (rev ?u))"
    by (metis rev_append rev_rev_ident takeWhile_dropWhile_id)
  ultimately have "s = takeWhile isspace s @ strip s @ rev (takeWhile isspace (rev ?u))"
    unfolding strip_def by simp
  then show ?thesis by blast
qed

lemma strip_subset: "set (strip s) \<subseteq> set s"
  using strip_infix[of s] by (metis Un_iff set_append subsetI)

lemma strip_no_adjacent: "no_adjacent_space s \<Longrightarrow> no_adjacent_space (strip s)"
  using strip_infix[of s] by (metis no_adjacent_append)

lemma strip_not_trailing: "\<not> trailing_space (strip s)"
  by (simp add: trailing_space_def strip_def dropWhile_not_leading)

lemma leading_hd: "leading_space s \<longleftrightarrow> s \<noteq> [] \<and> isspace (hd s)"
  by (cases s) auto

lemma strip_not_leading: "\<not> leading_space (strip s)"
proof
  assume a: "leading_space (strip s)"
  let ?u = "dropWhile isspace s"
  let ?v = "dropWhile isspace (rev ?u)"
  from a have ne: "?v \<noteq> []" and sp: "isspace (last ?v)"
    by (auto simp: leading_hd strip_def hd_rev)
  from ne have une: "?u \<noteq> []" by (metis dropWhile.simps(1) rev.simps(1))
  then have nh: "\<not> isspace (hd ?u)" by (metis hd_dropWhile)
  have "last ?v = last (rev ?u)"
    by (rule dropWhile_last[of "hd ?u"]) (use une nh in auto)
  then have "last ?v = hd ?u" using une by (simp add: last_rev)
  with sp nh show False by simp
qed

lemma sub_runs_fixed:
  "no_adjacent_space s \<Longrightarrow> \<forall>c \<in> set s. isspace c \<longrightarrow> c = 32 \<Longrightarrow> sub_runs isspace [32] s = s"
proof (induction s)
  case Nil then show ?case by simp
next
  case (Cons c cs)
  then have ih: "sub_runs isspace [32] cs = cs" by (simp add: no_adjacent_Cons)
  show ?case
  proof (cases "isspace c")
    case True
    with Cons.prems have "c = 32" and "\<not> leading_space cs" by (auto simp: no_adjacent_Cons)
    then have "dropWhile isspace cs = cs" by (cases cs) auto
    with True ih \<open>c = 32\<close> show ?thesis by simp
  next
    case False with ih show ?thesis by simp
  qed
qed

lemma strip_fixed: "\<not> leading_space s \<Longrightarrow> \<not> trailing_space s \<Longrightarrow> strip s = s"
proof -
  assume a: "\<not> leading_space s" and b: "\<not> trailing_space s"
  from a have "dropWhile isspace s = s" by (cases s) auto
  moreover from b have "dropWhile isspace (rev s) = rev s"
    unfolding trailing_space_def by (cases "rev s") auto
  ultimately show ?thesis by (simp add: strip_def)
qed

lemma clean_text_space_only: "c \<in> set (clean_text s) \<Longrightarrow> isspace c \<Longrightarrow> c = 32"
proof -
  assume a: "c \<in> set (clean_text s)" and b: "isspace c"
  let ?t = "sub_runs isspace [32] s"
  have nl: "\<forall>x \<in> set ?t. \<not> x = 10" using sub_runs_space_only[of _ s] isspace_10 by fastforce
  then have "sub_runs (\<lambda>c. c = 10) [10] ?t = ?t" by (rule sub_runs_absent)
  then have "clean_text s = strip ?t" by (simp add: clean_text_def)
  with a strip_subset have "c \<in> set ?t" by auto
  from this b show ?thesis by (rule sub_runs_space_only)
qed

lemma clean_text_eq: "clean_text s = strip (sub_runs isspace [32] s)"
proof -
  let ?t = "sub_runs isspace [32] s"
  have nl: "\<forall>x \<in> set ?t. \<not> x = 10" using sub_runs_space_only[of _ s] isspace_10 by fastforce
  then have "sub_runs (\<lambda>c. c = 10) [10] ?t = ?t" by (rule sub_runs_absent)
  then show ?thesis by (simp add: clean_text_def)
qed

text \<open>
  Claim C10. For every input string, the output of \<open>clean_text\<close> contains no newline
  character, no two adjacent whitespace characters and no leading or trailing whitespace,
  and \<open>clean_text\<close> is idempotent.
\<close>

theorem clean_text_normal_form:
  "10 \<notin> set (clean_text s) \<and> no_adjacent_space (clean_text s) \<and>
   \<not> leading_space (clean_text s) \<and> \<not> trailing_space (clean_text s) \<and>
   clean_text (clean_text s) = clean_text s"
proof -
  let ?t = "clean_text s"
  have nl: "10 \<notin> set ?t" using clean_text_space_only[of 10 s] isspace_10 by auto
  have na: "no_adjacent_space ?t"
    unfolding clean_text_eq by (rule strip_no_adjacent) (rule sub_runs_no_adjacent)
  have nlead: "\<not> leading_space ?t" unfolding clean_text_eq by (rule strip_not_leading)
  have ntrail: "\<not> trailing_space ?t" unfolding clean_text_eq by (rule strip_not_trailing)
  have so: "\<forall>c \<in> set ?t. isspace c \<longrightarrow> c = 32" using clean_text_space_only by blast
  have "sub_runs isspace [32] ?t = ?t" using na so by (rule sub_runs_fixed)
  then have "clean_text ?t = strip ?t" by (simp add: clean_text_eq[of ?t])
  also have "\<dots> = ?t" using nlead ntrail by (rule strip_fixed)
  finally show ?thesis using nl na nlead ntrail by simp
qed

theorem clean_text_normal_form_witness:
  "clean_text ([32, 32] @ asc ''a'' @ [9, 10, 10, 160] @ asc ''b'' @ [10]) = asc ''a b'' \<and>
   clean_text (asc ''a b'') = asc ''a b''"
  using clean_text_normal_form[of "[32, 32] @ asc ''a'' @ [9, 10, 10, 160] @ asc ''b'' @ [10]"]
  by (simp add: clean_text_def strip_def asc_def isspace_def)


section \<open>validate_url\<close>

lemma cls_URLValidationError_new: "cls (URLValidationError_new url reason) = URLValidationError"
  by (simp add: URLValidationError_new_def base_init_def)

lemma error_code_URLValidationError_new:
  "error_code (URLValidationError_new url reason) = asc ''VALIDATION_ERROR''"
  by (simp add: URLValidationError_new_def base_init_def)

text \<open>
  Claim C7. For every input that is empty or blank, fails the structural validation, has
  a scheme other than http and https, or has an empty host, \<open>validate_url\<close> fails with
  URLValidationError (code VALIDATION_ERROR); every other input is accepted, and the value
  returned is the input with its surrounding whitespace trimmed. This holds whatever
  \<open>validators.url\<close> and \<open>urlparse\<close> compute.
\<close>

theorem validate_url_law:
  "(unusable_url valid parse url \<longrightarrow>
      (\<exists>e. validate_url valid parse url = Inl e \<and> cls e = URLValidationError \<and>
           error_code e = asc ''VALIDATION_ERROR'')) \<and>
   (\<not> unusable_url valid parse url \<longrightarrow> validate_url valid parse url = Inr (strip url))"
  by (auto simp: unusable_url_def validate_url_def Let_def cls_URLValidationError_new
      error_code_URLValidationError_new)

theorem validate_url_law_witness:
  "unusable_url (\<lambda>u. True) demo_urlparse (asc ''ftp://host'') \<and>
   (\<exists>e. validate_url (\<lambda>u. True) demo_urlparse (asc ''ftp://host'') = Inl e \<and>
        cls e = URLValidationError \<and> error_code e = asc ''VALIDATION_ERROR'') \<and>
   \<not> unusable_url (\<lambda>u. True) demo_urlparse (asc '' https://example.com '') \<and>
   validate_url (\<lambda>u. True) demo_urlparse (asc '' https://example.com '') = Inr (asc ''https://example.com'')"
proof -
  have a: "unusable_url (\<lambda>u. True) demo_urlparse (asc ''ftp://host'')"
    by (simp add: unusable_url_def demo_urlparse_def asc_def strip_def isspace_def)
  have b: "\<not> unusable_url (\<lambda>u. True) demo_urlparse (asc '' https://example.com '')"
    by (simp add: unusable_url_def demo_urlparse_def asc_def strip_def isspace_def)
  have s: "strip (asc '' https://example.com '') = asc ''https://example.com''"
    by (simp add: asc_def strip_def isspace_def)
  from a b s validate_url_law[of "\<lambda>u. True" demo_urlparse "asc ''ftp://host''"]
    validate_url_law[of "\<lambda>u. True" demo_urlparse "asc '' https://example.com ''"]
  show ?thesis by simp
qed


section \<open>validate_style\<close>

lemma STYLES_keys:
  "map fst STYLES = [ironic_key, professional_key, motivational_key, humorous_key,
     educational_key, emotional_key]"
  by (simp add: STYLES_def)

lemma STYLES_distinct: "distinct (map fst STYLES)"
  unfolding STYLES_keys
  by (simp add: ironic_key_def professional_key_def motivational_key_def humorous_key_def
      educational_key_def emotional_key_def)

lemma DEFAULT_STYLE_key: "DEFAULT_STYLE \<in> set (map fst STYLES)"
  unfolding STYLES_keys by (simp add: DEFAULT_STYLE_def ironic_key_def)

lemma find_in_STYLES:
  "find P STYLES = Some (k, d) \<Longrightarrow> map_of STYLES k = Some d \<and> P (k, d)"
  using STYLES_distinct by (auto simp: find_Some_iff map_of_eq_Some_iff nth_mem)

lemma find_none_ids:
  "find (\<lambda>(style_name, style_data). style_id style_data = s) STYLES = None \<longleftrightarrow> s \<notin> set style_ids"
  by (auto simp: find_None_iff style_ids_def)

lemma validate_style_in_keys: "validate_style lower style \<in> set (map fst STYLES)"
proof (cases style)
  case None then show ?thesis using DEFAULT_STYLE_key by (simp add: validate_style_def)
next
  case (Some s0)
  show ?thesis
  proof (cases "find (\<lambda>(style_name, style_data). style_id style_data = strip (lower s0)) STYLES")
    case None
    with Some show ?thesis using DEFAULT_STYLE_key
      by (simp add: validate_style_def Let_def del: set_map)
  next
    case (Some a)
    obtain k d where a: "a = (k, d)" by (cases a)
    with Some have "map_of STYLES k = Some d" using find_in_STYLES by blast
    then have "k \<in> set (map fst STYLES)" by (force dest: map_of_SomeD)
    with Some a \<open>style = Some s0\<close> show ?thesis using DEFAULT_STYLE_key
      by (simp add: validate_style_def Let_def del: set_map)
  qed
qed

lemma validate_style_config: "\<exists>sc. map_of STYLES (validate_style lower style) = Some sc"
  using validate_style_in_keys[of lower style]
  by (metis map_of_eq_None_iff not_None_eq set_map)

text \<open>
  Claim C8. Style resolution has no failing path: its value is always a key of the style
  table, so the lookup \<open>STYLES[style]\<close> that follows it finds an entry. An absent or empty
  input gives the default style. Any other input is lowercased and trimmed; when that is
  a key it is the result, otherwise when it is an identifier the result is the key of the
  entry with that identifier, and otherwise the result is the default style. This holds
  whatever \<open>str.lower\<close> computes.
\<close>

theorem validate_style_law:
  "validate_style lower style \<in> set (map fst STYLES) \<and>
   (style = None \<or> style = Some [] \<longrightarrow> validate_style lower style = DEFAULT_STYLE) \<and>
   (\<forall>s0. style = Some s0 \<and> s0 \<noteq> [] \<longrightarrow>
      (strip (lower s0) \<in> set (map fst STYLES) \<longrightarrow>
         validate_style lower style = strip (lower s0)) \<and>
      (strip (lower s0) \<notin> set (map fst STYLES) \<and> strip (lower s0) \<in> set style_ids \<longrightarrow>
         (\<exists>d. map_of STYLES (validate_style lower style) = Some d \<and>
              style_id d = strip (lower s0))) \<and>
      (strip (lower s0) \<notin> set (map fst STYLES) \<and> strip (lower s0) \<notin> set style_ids \<longrightarrow>
         validate_style lower style = DEFAULT_STYLE))"
proof -
  have mem: "validate_style lower style \<in> set (map fst STYLES)"
    by (rule validate_style_in_keys)
  have dflt: "style = None \<or> style = Some [] \<longrightarrow> validate_style lower style = DEFAULT_STYLE"
    by (auto simp: validate_style_def)
  have rest: "\<forall>s0. style = Some s0 \<and> s0 \<noteq> [] \<longrightarrow>
      (strip (lower s0) \<in> set (map fst STYLES) \<longrightarrow>
         validate_style lower style = strip (lower s0)) \<and>
      (strip (lower s0) \<notin> set (map fst STYLES) \<and> strip (lower s0) \<in> set style_ids \<longrightarrow>
         (\<exists>d. map_of STYLES (validate_style lower style) = Some d \<and>
              style_id d = strip (lower s0))) \<and>
      (strip (lower s0) \<notin> set (map fst STYLES) \<and> strip (lower s0) \<notin> set style_ids \<longrightarrow>
         validate_style lower style = DEFAULT_STYLE)"
  proof (intro allI impI conjI)
    fix s0 assume "style = Some s0 \<and> s0 \<noteq> []" and "strip (lower s0) \<in> set (map fst STYLES)"
    then show "validate_style lower style = strip (lower s0)"
      by (simp add: validate_style_def Let_def del: set_map)
  next
    fix s0 assume h: "style = Some s0 \<and> s0 \<noteq> []"
      and h2: "strip (lower s0) \<notin> set (map fst STYLES) \<and> strip (lower s0) \<in> set style_ids"
    then obtain a where f: "find (\<lambda>(style_name, style_data). style_id style_data = strip (lower s0)) STYLES = Some a"
      using find_none_ids[of "strip (lower s0)"] by (cases "find (\<lambda>(style_name, style_data). style_id style_data = strip (lower s0)) STYLES") auto
    obtain k d where a: "a = (k, d)" by (cases a)
    from f a have "map_of STYLES k = Some d \<and> style_id d = strip (lower s0)"
      using find_in_STYLES[of "\<lambda>(style_name, style_data). style_id style_data = strip (lower s0)" k d] by simp
    moreover from h h2 f a have "validate_style lower style = k"
      by (simp add: validate_style_def Let_def del: set_map)
    ultimately show "\<exists>d. map_of STYLES (validate_style lower style) = Some d \<and> style_id d = strip (lower s0)"
      by simp
  next
    fix s0 assume h: "style = Some s0 \<and> s0 \<noteq> []"
      and h2: "strip (lower s0) \<notin> set (map fst STYLES) \<and> strip (lower s0) \<notin> set style_ids"
    then have "find (\<lambda>(style_name, style_data). style_id style_data = strip (lower s0)) STYLES = None"
      using find_none_ids by blast
    with h h2 show "validate_style lower style = DEFAULT_STYLE"
      by (simp add: validate_style_def Let_def del: set_map)
  qed
  from mem dflt rest show ?thesis by blast
qed

lemma style_ids_eval:
  "style_ids = [asc ''ironic'', asc ''professional'', asc ''motivational'', asc ''humorous'',
     asc ''educational'', asc ''emotional'']"
  by (simp add: style_ids_def STYLES_def ironic_style_def professional_style_def
      motivational_style_def humorous_style_def educational_style_def emotional_style_def)

theorem validate_style_law_witness:
  "strip (ascii_lower (asc '' Ironic '')) \<notin> set (map fst STYLES) \<and>
   strip (ascii_lower (asc '' Ironic '')) \<in> set style_ids \<and>
   (\<exists>d. map_of STYLES (validate_style ascii_lower (Some (asc '' Ironic ''))) = Some d \<and>
        style_id d = asc ''ironic'') \<and>
   validate_style ascii_lower (Some (asc ''Sad'')) = DEFAULT_STYLE \<and>
   validate_style ascii_lower None = DEFAULT_STYLE"
proof -
  have s: "strip (ascii_lower (asc '' Ironic '')) = asc ''ironic''"
    by (simp add: ascii_lower_def asc_def strip_def isspace_def)
  have t: "strip (ascii_lower (asc ''Sad'')) = asc ''sad''"
    by (simp add: ascii_lower_def asc_def strip_def isspace_def)
  have k1: "asc ''ironic'' \<notin> set (map fst STYLES)"
    unfolding STYLES_keys
    by (simp add: asc_def ironic_key_def professional_key_def motivational_key_def
        humorous_key_def educational_key_def emotional_key_def)
  have k2: "asc ''sad'' \<notin> set (map fst STYLES)"
    unfolding STYLES_keys
    by (simp add: asc_def ironic_key_def professional_key_def motivational_key_def
        humorous_key_def educational_key_def emotional_key_def)
  have i1: "asc ''ironic'' \<in> set style_ids" unfolding style_ids_eval by simp
  have i2: "asc ''sad'' \<notin> set style_ids" unfolding style_ids_eval by (simp add: asc_def)
  have ne: "asc '' Ironic '' \<noteq> []" "asc ''Sad'' \<noteq> []" by (simp_all add: asc_def)
  from validate_style_law[of ascii_lower "Some (asc '' Ironic '')"] s k1 i1 ne
  have a: "\<exists>d. map_of STYLES (validate_style ascii_lower (Some (asc '' Ironic ''))) = Some d \<and>
        style_id d = asc ''ironic''" by simp
  from validate_style_law[of ascii_lower "Some (asc ''Sad'')"] t k2 i2 ne
  have b: "validate_style ascii_lower (Some (asc ''Sad'')) = DEFAULT_STYLE" by simp
  from validate_style_law[of ascii_lower None]
  have c: "validate_style ascii_lower None = DEFAULT_STYLE" by simp
  from a b c s k1 i1 show ?thesis by simp
qed


section \<open>The effective maximum length\<close>

lemma post_max_length_range: "400 \<le> post_max_length st m \<and> post_max_length st m \<le> 4000"
  by (simp add: post_max_length_def Let_def)

lemma post_max_length_idem: "post_max_length st (Some (post_max_length st m)) = post_max_length st m"
  by (simp add: post_max_length_def Let_def split: option.splits)

text \<open>
  Claim C5, as amended. A requested \<open>max_length\<close> other than 0 gives 400 when it is below
  400 and 4000 when it is above 4000, and is used as it is in between. An absent
  \<open>max_length\<close>, and the value 0, give the configured default maximum clamped into
  [400, 4000]. The pipeline depends on \<open>max_length\<close> through this value only: prompt and
  truncation are those of a request for the effective value.
\<close>

theorem post_max_length_law:
  "(\<forall>m. m \<noteq> 0 \<and> m < 400 \<longrightarrow> post_max_length st (Some m) = 400) \<and>
   (\<forall>m. 4000 < m \<longrightarrow> post_max_length st (Some m) = 4000) \<and>
   (\<forall>m. 400 \<le> m \<and> m \<le> 4000 \<longrightarrow> post_max_length st (Some m) = m) \<and>
   post_max_length st None = max 400 (min 4000 (max_post_length st)) \<and>
   post_max_length st (Some 0) = post_max_length st None \<and>
   generate_post env st c w url style max_length =
     generate_post env st c w url style (Some (post_max_length st max_length))"
proof -
  have "generate_post env st c w url style max_length =
     generate_post env st c w url style (Some (post_max_length st max_length))"
    unfolding generate_post_def post_max_length_idem by (rule refl)
  then show ?thesis by (auto simp: post_max_length_def Let_def)
qed

theorem post_max_length_law_witness:
  "post_max_length \<lparr>min_text_length = 100, max_post_length = 800\<rparr> (Some 50) = 400 \<and>
   post_max_length \<lparr>min_text_length = 100, max_post_length = 800\<rparr> (Some (- 7)) = 400 \<and>
   post_max_length \<lparr>min_text_length = 100, max_post_length = 800\<rparr> (Some 9000) = 4000 \<and>
   post_max_length \<lparr>min_text_length = 100, max_post_length = 800\<rparr> (Some 1200) = 1200 \<and>
   post_max_length \<lparr>min_text_length = 100, max_post_length = 800\<rparr> None = 800"
  using post_max_length_law[of "\<lparr>min_text_length = 100, max_post_length = 800\<rparr>"]
  by simp

text \<open>
  The claim as stated fails at the requested value 0, which is outside [400, 4000] and
  gives the configured default 800, not the bound 400; and an absent value with a
  configured default of 100 gives 400, not the default.
\<close>

theorem post_max_length_counterexample:
  "post_max_length \<lparr>min_text_length = 100, max_post_length = 800\<rparr> (Some 0) = 800 \<and>
   post_max_length \<lparr>min_text_length = 100, max_post_length = 100\<rparr> None = 400"
  by (simp add: post_max_length_def)


section \<open>The error taxonomy\<close>

lemma taxonomy_cls:
  "taxonomy_failure e \<Longrightarrow>
     cls e \<in> {URLValidationError, URLFetchError, TextExtractionError, OpenAIError, RateLimitError,
              PostGenerationError, ConfigurationError} \<and>
     error_code e = default_error_code (cls e)"
  by (erule taxonomy_failure.cases)
     (simp_all add: URLValidationError_new_def URLFetchError_new_def TextExtractionError_new_def
       OpenAIError_new_def OpenAIError_init_def RateLimitError_new_def PostGenerationError_new_def
       ConfigurationError_new_def base_init_def Let_def split: option.splits)

lemma taxonomy_details_keys:
  "taxonomy_failure e \<Longrightarrow>
     details e ''success'' = None \<and> details e ''error'' = None \<and> details e ''error_code'' = None"
  by (erule taxonomy_failure.cases)
     (simp_all add: URLValidationError_new_def URLFetchError_new_def TextExtractionError_new_def
       OpenAIError_new_def OpenAIError_init_def RateLimitError_new_def PostGenerationError_new_def
       ConfigurationError_new_def base_init_def Let_def map_add_def split: option.splits)

text \<open>
  Claim C9. For every failure the seven constructors of the taxonomy build, the
  dictionary conversion is the mapping of \<open>success\<close> to false, \<open>error\<close> to the user message
  and \<open>error_code\<close> to the code of the failure's kind, merged with the details; no entry of
  the details replaces one of the three. An exception that is not of the taxonomy is
  converted to one fixed mapping with the code INTERNAL_ERROR, the same for every such
  exception, so that nothing of its message is in it.
\<close>

theorem failure_to_dict:
  "(taxonomy_failure e \<longrightarrow>
      handle_exception (AppException e) = to_dict e \<and>
      to_dict e =
        [''success'' \<mapsto> PBool False, ''error'' \<mapsto> PStr (user_message e),
         ''error_code'' \<mapsto> PStr (default_error_code (cls e))] ++ details e \<and>
      to_dict e ''success'' = Some (PBool False) \<and>
      to_dict e ''error'' = Some (PStr (user_message e)) \<and>
      to_dict e ''error_code'' = Some (PStr (default_error_code (cls e))) \<and>
      (\<forall>k. k \<noteq> ''success'' \<and> k \<noteq> ''error'' \<and> k \<noteq> ''error_code'' \<longrightarrow>
           to_dict e k = details e k)) \<and>
   handle_exception (OtherException x) =
     [''success'' \<mapsto> PBool False,
      ''error'' \<mapsto> PStr unexpected_error_message,
      ''error_code'' \<mapsto> PStr (asc ''INTERNAL_ERROR'')]"
proof -
  have gen: "handle_exception (OtherException x) =
     [''success'' \<mapsto> PBool False, ''error'' \<mapsto> PStr unexpected_error_message,
      ''error_code'' \<mapsto> PStr (asc ''INTERNAL_ERROR'')]"
    by (simp add: handle_exception_def)
  have app: "handle_exception (AppException e) = to_dict e"
    by (simp add: handle_exception_def)
  {
    assume t: "taxonomy_failure e"
    from t have code: "error_code e = default_error_code (cls e)" using taxonomy_cls by blast
    from t have keys: "details e ''success'' = None" "details e ''error'' = None"
      "details e ''error_code'' = None" using taxonomy_details_keys by blast+
    have d: "to_dict e =
        [''success'' \<mapsto> PBool False, ''error'' \<mapsto> PStr (user_message e),
         ''error_code'' \<mapsto> PStr (default_error_code (cls e))] ++ details e"
      by (simp add: to_dict_def code)
    have 1: "to_dict e ''success'' = Some (PBool False)"
      by (simp add: to_dict_def map_add_def keys)
    have 2: "to_dict e ''error'' = Some (PStr (user_message e))"
      by (simp add: to_dict_def map_add_def keys)
    have 3: "to_dict e ''error_code'' = Some (PStr (default_error_code (cls e)))"
      by (simp add: to_dict_def map_add_def keys code)
    have 4: "\<forall>k. k \<noteq> ''success'' \<and> k \<noteq> ''error'' \<and> k \<noteq> ''error_code'' \<longrightarrow>
           to_dict e k = details e k"
      by (simp add: to_dict_def map_add_def split: option.splits)
    note d 1 2 3 4
  }
  with gen app show ?thesis by blast
qed

theorem failure_to_dict_witness:
  "taxonomy_failure (RateLimitError_new (Some 60)) \<and>
   to_dict (RateLimitError_new (Some 60)) ''success'' = Some (PBool False) \<and>
   to_dict (RateLimitError_new (Some 60)) ''error'' =
     Some (PStr (default_user_message RateLimitError)) \<and>
   to_dict (RateLimitError_new (Some 60)) ''error_code'' = Some (PStr (asc ''RATE_LIMIT_ERROR'')) \<and>
   to_dict (RateLimitError_new (Some 60)) ''retry_after'' = Some (PInt 60) \<and>
   to_dict (RateLimitError_new (Some 60)) ''retry_count'' = Some (PInt 0)"
proof -
  have t: "taxonomy_failure (RateLimitError_new (Some 60))"
    by (rule taxonomy_failure.intros)
  have c: "cls (RateLimitError_new (Some 60)) = RateLimitError"
    by (simp add: RateLimitError_new_def OpenAIError_init_def base_init_def Let_def)
  have u: "user_message (RateLimitError_new (Some 60)) = default_user_message RateLimitError"
    by (simp add: RateLimitError_new_def OpenAIError_init_def base_init_def Let_def)
  have d: "details (RateLimitError_new (Some 60)) ''retry_after'' = Some (PInt 60)"
    "details (RateLimitError_new (Some 60)) ''retry_count'' = Some (PInt 0)"
    by (simp_all add: RateLimitError_new_def OpenAIError_init_def base_init_def Let_def)
  from failure_to_dict[of "RateLimitError_new (Some 60)"] t
  have a: "to_dict (RateLimitError_new (Some 60)) ''success'' = Some (PBool False)"
    and b: "to_dict (RateLimitError_new (Some 60)) ''error'' =
              Some (PStr (user_message (RateLimitError_new (Some 60))))"
    and e: "to_dict (RateLimitError_new (Some 60)) ''error_code'' =
              Some (PStr (default_error_code (cls (RateLimitError_new (Some 60)))))"
    and k: "\<forall>k. k \<noteq> ''success'' \<and> k \<noteq> ''error'' \<and> k \<noteq> ''error_code'' \<longrightarrow>
              to_dict (RateLimitError_new (Some 60)) k = details (RateLimitError_new (Some 60)) k"
    by blast+
  from k have k1: "to_dict (RateLimitError_new (Some 60)) ''retry_after'' =
      details (RateLimitError_new (Some 60)) ''retry_after''" by simp
  from k have k2: "to_dict (RateLimitError_new (Some 60)) ''retry_count'' =
      details (RateLimitError_new (Some 60)) ''retry_count''" by simp
  show ?thesis
    unfolding a b e k1 k2 c u d using t by simp
qed


section \<open>generate_text: retries\<close>

lemma try_body_effect:
  "try_body out c = (x, c1) \<Longrightarrow>
   model c1 = model c \<and> failed_requests c1 = failed_requests c \<and>
   total_requests c \<le> total_requests c1 \<and>
   (case x of Inl e \<Rightarrow> total_tokens c1 = total_tokens c
    | Inr t \<Rightarrow> total_requests c1 = total_requests c + 1)"
  by (auto simp: try_body_def Let_def split: api_outcome.splits sum.splits option.splits)

lemma try_body_exact:
  "try_body out c = (Inl x, c1) \<Longrightarrow>
   \<forall>r e. out = Completed r \<longrightarrow> usage_tokens r \<noteq> Some (Inl e) \<Longrightarrow> c1 = c"
  by (auto simp: try_body_def Let_def split: api_outcome.splits sum.splits option.splits)

lemma retry_loop_rate_limit_step:
  "int attempt < max_retries \<Longrightarrow>
   rem (length (calls w)) req = Raised (OpenAIRateLimitError x retry_after) \<Longrightarrow>
   retry_loop rem req max_retries attempt last_error c w =
     (Inl (RateLimitError_new retry_after), c\<lparr>failed_requests := failed_requests c + 1\<rparr>,
      w\<lparr>calls := calls w @ [req]\<rparr>)"
  by (subst retry_loop.simps) (simp add: try_body_def)

lemma retry_loop_timeout_retry:
  "int attempt < max_retries - 1 \<Longrightarrow>
   rem (length (calls w)) req = Raised (APITimeoutError x) \<Longrightarrow>
   retry_loop rem req max_retries attempt last_error c w =
     retry_loop rem req max_retries (Suc attempt) (Some x) c
       (w\<lparr>calls := calls w @ [req], sleeps := sleeps w @ [2 ^ attempt]\<rparr>)"
  by (subst retry_loop.simps) (simp add: try_body_def)


lemma retry_loop_completed:
  "int attempt < max_retries \<Longrightarrow>
   rem (length (calls w)) req = Completed r \<Longrightarrow> first_content r = Inr text \<Longrightarrow>
   usage_tokens r = None \<or> usage_tokens r = Some (Inr k) \<Longrightarrow>
   retry_loop rem req max_retries attempt last_error c w =
     (Inr (strip text),
      (if usage_tokens r = None then c\<lparr>total_requests := total_requests c + 1\<rparr>
       else c\<lparr>total_requests := total_requests c + 1, total_tokens := total_tokens c + k\<rparr>),
      w\<lparr>calls := calls w @ [req]\<rparr>)"
  by (subst retry_loop.simps) (auto simp: try_body_def Let_def)

lemma retry_loop_counted_failure:
  "int attempt = max_retries - 1 \<Longrightarrow>
   rem (length (calls w)) req = Completed r \<Longrightarrow> first_content r = Inr text \<Longrightarrow>
   usage_tokens r = Some (Inl e) \<Longrightarrow>
   retry_loop rem req max_retries attempt last_error c w =
     (Inl (OpenAIError_new unexpected_reason (Some e) max_retries),
      c\<lparr>total_requests := total_requests c + 1, failed_requests := failed_requests c + 1\<rparr>,
      w\<lparr>calls := calls w @ [req]\<rparr>)"
  by (subst retry_loop.simps) (simp add: try_body_def Let_def)

text \<open>
  The counters after the loop. A raised exception counts one failed request, whatever the
  number of attempts, and adds no tokens; a returned text counts no failed request and at
  least one request. \<open>total_requests\<close> never decreases.
\<close>

lemma retry_loop_counters:
  "retry_loop rem req max_retries attempt last_error c w = (r, c', w') \<Longrightarrow>
   model c' = model c \<and> total_requests c \<le> total_requests c' \<and>
   (case r of
      Inr t \<Rightarrow> failed_requests c' = failed_requests c \<and> total_requests c < total_requests c'
    | Inl e \<Rightarrow> failed_requests c' = failed_requests c + 1 \<and> total_tokens c' = total_tokens c)"
proof (induction rem req max_retries attempt last_error c w rule: retry_loop.induct)
  case (1 rem req max_retries attempt last_error c w)
  obtain x c1 where tb: "try_body (rem (length (calls w)) req) c = (x, c1)"
    by (cases "try_body (rem (length (calls w)) req) c")
  note eff = try_body_effect[OF tb]
  show ?case
    using "1.prems" "1.IH" eff tb
    apply (subst (asm) retry_loop.simps)
    apply (auto simp: Let_def split: if_splits sum.splits api_exception.splits)
    apply (force+)?
    done
qed

text \<open>
  When no reply raises while its tokens are added, the counters change by exactly one.
\<close>

lemma retry_loop_counters_exact:
  "retry_loop rem req max_retries attempt last_error c w = (r, c', w') \<Longrightarrow>
   \<forall>i q p e. rem i q = Completed p \<longrightarrow> usage_tokens p \<noteq> Some (Inl e) \<Longrightarrow>
   (case r of
      Inr t \<Rightarrow> total_requests c' = total_requests c + 1 \<and> failed_requests c' = failed_requests c
    | Inl e \<Rightarrow> total_requests c' = total_requests c \<and> failed_requests c' = failed_requests c + 1)"
proof (induction rem req max_retries attempt last_error c w rule: retry_loop.induct)
  case (1 rem req max_retries attempt last_error c w)
  obtain x c1 where tb: "try_body (rem (length (calls w)) req) c = (x, c1)"
    by (cases "try_body (rem (length (calls w)) req) c")
  note eff = try_body_effect[OF tb]
  have ex: "\<And>y. x = Inl y \<Longrightarrow> c1 = c"
    using tb try_body_exact[of "rem (length (calls w)) req" c _ c1] "1.prems"(2) by blast
  show ?case
    using "1.prems" "1.IH" eff tb ex
    apply (subst (asm) retry_loop.simps)
    apply (auto simp: Let_def split: if_splits sum.splits api_exception.splits)
    apply (force+)?
    done
qed

lemma retry_loop_rate_limit:
  "retry_loop rem req max_retries attempt last_error c w = (r, c', w') \<Longrightarrow>
   length (calls w) \<le> i \<Longrightarrow> i < length (calls w') \<Longrightarrow>
   rem i req = Raised (OpenAIRateLimitError x retry_after) \<Longrightarrow>
   r = Inl (RateLimitError_new retry_after) \<and> length (calls w') = i + 1"
proof (induction rem req max_retries attempt last_error c w rule: retry_loop.induct)
  case (1 rem req max_retries attempt last_error c w)
  show ?case
  proof (cases "i = length (calls w)")
    case True
    with "1.prems" have a: "int attempt < max_retries"
      by (subst (asm) retry_loop.simps) (auto split: if_splits)
    from retry_loop_rate_limit_step[OF a, of rem w req x retry_after last_error c] True "1.prems"
    show ?thesis by auto
  next
    case False
    with "1.prems" have lt: "length (calls w) < i" by simp
    obtain y c1 where tb: "try_body (rem (length (calls w)) req) c = (y, c1)"
      by (cases "try_body (rem (length (calls w)) req) c")
    show ?thesis
      using "1.prems" "1.IH" lt tb
      apply (subst (asm) retry_loop.simps)
      apply (auto simp: Let_def split: if_splits sum.splits api_exception.splits)
      apply (force+)?
      done
  qed
qed

lemma RateLimitError_new_fields:
  "cls (RateLimitError_new retry_after) = RateLimitError \<and>
   error_code (RateLimitError_new retry_after) = asc ''RATE_LIMIT_ERROR'' \<and>
   details (RateLimitError_new retry_after) ''retry_after'' =
     (case retry_after of None \<Rightarrow> None | Some n \<Rightarrow> if n = 0 then None else Some (PInt n))"
  by (simp add: RateLimitError_new_def OpenAIError_init_def base_init_def Let_def
      split: option.splits)


lemma demo_request_eq:
  "\<lparr>req_model = asc ''gpt-4o'', req_messages = chat_messages (asc ''hi'') None\<rparr> = demo_request"
  by (simp add: demo_request_def)




lemma limited_run:
  "generate_text (remote_limited hint) demo_client empty_world (asc ''hi'') None 3 =
     (Inl (RateLimitError_new hint), demo_client\<lparr>failed_requests := 1\<rparr>,
      \<lparr>calls = [demo_request, demo_request], sleeps = [1]\<rparr>)"
proof -
  have "retry_loop (remote_limited hint) demo_request 3 0 None demo_client empty_world =
        retry_loop (remote_limited hint) demo_request 3 (Suc 0) (Some demo_timeout) demo_client
          (empty_world\<lparr>calls := calls empty_world @ [demo_request],
             sleeps := sleeps empty_world @ [2 ^ 0]\<rparr>)"
    by (intro retry_loop_timeout_retry) (simp_all add: remote_limited_def empty_world_def)
  also have "\<dots> = (Inl (RateLimitError_new hint),
      demo_client\<lparr>failed_requests := failed_requests demo_client + 1\<rparr>,
      (empty_world\<lparr>calls := calls empty_world @ [demo_request],
             sleeps := sleeps empty_world @ [2 ^ 0]\<rparr>)\<lparr>calls :=
        calls (empty_world\<lparr>calls := calls empty_world @ [demo_request],
             sleeps := sleeps empty_world @ [2 ^ 0]\<rparr>) @ [demo_request]\<rparr>)"
    by (intro retry_loop_rate_limit_step[where x = demo_rate_limit])
       (simp_all add: remote_limited_def empty_world_def)
  finally show ?thesis
    by (simp add: generate_text_def demo_request_eq empty_world_def demo_client_def new_client_def)
qed

text \<open>
  Claim C4, as amended. When a request sent by a \<open>generate_text\<close> invocation is answered
  with a rate-limit error, the invocation raises RateLimitError (code RATE_LIMIT_ERROR),
  that request is the last one it sent, \<open>failed_requests\<close> is one more and no tokens are
  added. The details carry the provider's hint under \<open>retry_after\<close> when the hint is not
  0; an absent hint and the hint 0 add no entry.
\<close>

theorem rate_limit_law:
  "generate_text rem c w prompt sp max_retries = (r, c', w') \<and>
   length (calls w) \<le> i \<and> i < length (calls w') \<and>
   rem i \<lparr>req_model = model c, req_messages = chat_messages prompt sp\<rparr> =
     Raised (OpenAIRateLimitError x retry_after) \<longrightarrow>
   r = Inl (RateLimitError_new retry_after) \<and>
   cls (RateLimitError_new retry_after) = RateLimitError \<and>
   error_code (RateLimitError_new retry_after) = asc ''RATE_LIMIT_ERROR'' \<and>
   details (RateLimitError_new retry_after) ''retry_after'' =
     (case retry_after of None \<Rightarrow> None | Some n \<Rightarrow> if n = 0 then None else Some (PInt n)) \<and>
   length (calls w') = i + 1 \<and>
   failed_requests c' = failed_requests c + 1 \<and> total_tokens c' = total_tokens c"
proof (intro impI, elim conjE)
  assume g: "generate_text rem c w prompt sp max_retries = (r, c', w')"
    and i1: "length (calls w) \<le> i" and i2: "i < length (calls w')"
    and rl: "rem i \<lparr>req_model = model c, req_messages = chat_messages prompt sp\<rparr> =
               Raised (OpenAIRateLimitError x retry_after)"
  from g have l: "retry_loop rem \<lparr>req_model = model c, req_messages = chat_messages prompt sp\<rparr>
      max_retries 0 None c w = (r, c', w')" by (simp add: generate_text_def)
  from retry_loop_rate_limit[OF l i1 i2 rl]
  have r: "r = Inl (RateLimitError_new retry_after)" and n: "length (calls w') = i + 1" by simp_all
  from retry_loop_counters[OF l] r
  have "failed_requests c' = failed_requests c + 1 \<and> total_tokens c' = total_tokens c" by simp
  with r n RateLimitError_new_fields[of retry_after] show
   "r = Inl (RateLimitError_new retry_after) \<and>
   cls (RateLimitError_new retry_after) = RateLimitError \<and>
   error_code (RateLimitError_new retry_after) = asc ''RATE_LIMIT_ERROR'' \<and>
   details (RateLimitError_new retry_after) ''retry_after'' =
     (case retry_after of None \<Rightarrow> None | Some n \<Rightarrow> if n = 0 then None else Some (PInt n)) \<and>
   length (calls w') = i + 1 \<and>
   failed_requests c' = failed_requests c + 1 \<and> total_tokens c' = total_tokens c" by simp
qed

theorem rate_limit_law_witness:
  "generate_text (remote_limited (Some 30)) demo_client empty_world (asc ''hi'') None 3 =
     (Inl (RateLimitError_new (Some 30)), demo_client\<lparr>failed_requests := 1\<rparr>,
      \<lparr>calls = [demo_request, demo_request], sleeps = [1]\<rparr>) \<and>
   remote_limited (Some 30) 1 demo_request = Raised (OpenAIRateLimitError demo_rate_limit (Some 30)) \<and>
   details (RateLimitError_new (Some 30)) ''retry_after'' = Some (PInt 30) \<and>
   length (calls \<lparr>calls = [demo_request, demo_request], sleeps = [1]\<rparr>) = 1 + 1 \<and>
   failed_requests (demo_client\<lparr>failed_requests := 1\<rparr>) = failed_requests demo_client + 1"
  using rate_limit_law[of "remote_limited (Some 30)" demo_client empty_world "asc ''hi''" None 3
      "Inl (RateLimitError_new (Some 30))" "demo_client\<lparr>failed_requests := 1\<rparr>"
      "\<lparr>calls = [demo_request, demo_request], sleeps = [1]\<rparr>" 1 demo_rate_limit "Some 30"]
    limited_run[of "Some 30"]
  by (simp add: demo_request_eq remote_limited_def empty_world_def)

text \<open>
  The claim as stated fails at the hint 0: the provider supplied it, and the details of
  the raised RateLimitError have no \<open>retry_after\<close> entry.
\<close>

theorem rate_limit_zero_hint_counterexample:
  "fst (generate_text (remote_limited (Some 0)) demo_client empty_world (asc ''hi'') None 3) =
     Inl (RateLimitError_new (Some 0)) \<and>
   remote_limited (Some 0) 1 demo_request = Raised (OpenAIRateLimitError demo_rate_limit (Some 0)) \<and>
   details (RateLimitError_new (Some 0)) ''retry_after'' = None"
  using limited_run[of "Some 0"] RateLimitError_new_fields[of "Some 0"]
  by (simp add: remote_limited_def)


section \<open>get_statistics\<close>

lemma once_first:
  "generate_text remote_once demo_client empty_world (asc ''hi'') None 3 =
     (Inr (asc ''ok''), demo_client\<lparr>total_requests := 1, total_tokens := 7\<rparr>,
      \<lparr>calls = [demo_request], sleeps = []\<rparr>)"
proof -
  have "retry_loop remote_once demo_request 3 0 None demo_client empty_world =
     (Inr (strip (asc ''ok'')),
      (if usage_tokens (demo_reply (asc ''ok'')) = None
       then demo_client\<lparr>total_requests := total_requests demo_client + 1\<rparr>
       else demo_client\<lparr>total_requests := total_requests demo_client + 1,
              total_tokens := total_tokens demo_client + 7\<rparr>),
      empty_world\<lparr>calls := calls empty_world @ [demo_request]\<rparr>)"
    by (intro retry_loop_completed)
       (simp_all add: remote_once_def empty_world_def demo_reply_def)
  moreover have "strip (asc ''ok'') = asc ''ok''" by (simp add: strip_def asc_def isspace_def)
  ultimately show ?thesis
    by (simp add: generate_text_def demo_request_eq empty_world_def demo_client_def new_client_def
        demo_reply_def)
qed

lemma once_second:
  "generate_text remote_once (demo_client\<lparr>total_requests := 1, total_tokens := 7\<rparr>)
     \<lparr>calls = [demo_request], sleeps = []\<rparr> (asc ''hi'') None 3 =
     (Inl (RateLimitError_new None),
      demo_client\<lparr>total_requests := 1, total_tokens := 7, failed_requests := 1\<rparr>,
      \<lparr>calls = [demo_request, demo_request], sleeps = []\<rparr>)"
proof -
  have "retry_loop remote_once demo_request 3 0 None
          (demo_client\<lparr>total_requests := 1, total_tokens := 7\<rparr>)
          \<lparr>calls = [demo_request], sleeps = []\<rparr> =
     (Inl (RateLimitError_new None),
      (demo_client\<lparr>total_requests := 1, total_tokens := 7\<rparr>)\<lparr>failed_requests :=
         failed_requests (demo_client\<lparr>total_requests := 1, total_tokens := 7\<rparr>) + 1\<rparr>,
      \<lparr>calls = [demo_request], sleeps = []\<rparr>\<lparr>calls :=
         calls \<lparr>calls = [demo_request], sleeps = []\<rparr> @ [demo_request]\<rparr>)"
    by (intro retry_loop_rate_limit_step[where x = demo_rate_limit])
       (simp_all add: remote_once_def)
  then show ?thesis
    by (simp add: generate_text_def demo_request_def demo_client_def new_client_def)
qed

lemma once_run:
  "run_invocations remote_once demo_client empty_world
     [(asc ''hi'', None, 3), (asc ''hi'', None, 3)] =
     ([Inr (asc ''ok''), Inl (RateLimitError_new None)],
      demo_client\<lparr>total_requests := 1, total_tokens := 7, failed_requests := 1\<rparr>,
      \<lparr>calls = [demo_request, demo_request], sleeps = []\<rparr>)"
  by (simp add: once_first once_second)

text \<open>
  Claim C2 at one input. On a new client, one successful generation followed by one
  that ends in a rate-limit failure leaves \<open>total_requests = 1\<close> and
  \<open>failed_requests = 1\<close>: only a success counts a request. \<open>get_statistics\<close> then reports
  the success rate 0, where the claimed rate for one success and one failure is 50.
\<close>

theorem success_rate_example:
  "run_invocations remote_once demo_client empty_world
     [(asc ''hi'', None, 3), (asc ''hi'', None, 3)] =
     ([Inr (asc ''ok''), Inl (RateLimitError_new None)],
      demo_client\<lparr>total_requests := 1, total_tokens := 7, failed_requests := 1\<rparr>,
      \<lparr>calls = [demo_request, demo_request], sleeps = []\<rparr>) \<and>
   stat_success_rate
     (get_statistics (demo_client\<lparr>total_requests := 1, total_tokens := 7, failed_requests := 1\<rparr>)) = 0 \<and>
   claimed_success_rate 1 1 = 50"
proof -
  have b: "stat_success_rate
     (get_statistics (demo_client\<lparr>total_requests := 1, total_tokens := 7, failed_requests := 1\<rparr>)) = 0"
    by (simp add: get_statistics_def py_round2_def round_half_even_def demo_client_def new_client_def)
  have c: "claimed_success_rate 1 1 = 50"
    by (simp add: claimed_success_rate_def py_round2_def round_half_even_def)
  from once_run b c show ?thesis by simp
qed

lemma TextExtractionError_new_fields:
  "cls (TextExtractionError_new url reason) = TextExtractionError \<and>
   error_code (TextExtractionError_new url reason) = asc ''TEXT_EXTRACTION_ERROR''"
  by (simp add: TextExtractionError_new_def base_init_def)

lemma demo_url: "validate_url (\<lambda>u. True) demo_urlparse (asc ''https://example.com'') =
   Inr (asc ''https://example.com'')"
  by (simp add: validate_url_def demo_urlparse_def asc_def strip_def isspace_def)

lemma demo_extract:
  "extract_text (soup_get_text (demo_env page reply))
     (asc ''<p>'' @ page @ asc ''</p>'') = Inr (clean_text page)"
  by (simp add: extract_text_def demo_env_def asc_def)

lemma generate_post_short_text:
  assumes u: "validate_url (validators_url env) (urlparse env) url = Inr url1"
    and f: "fetch_html (http_get env) url1 = Inr html"
    and x: "extract_text (soup_get_text env) html = Inr text"
    and l: "int (length text) < min_text_length st"
  shows "generate_post env st c w url style max_length =
           (Inl (AppException
                   (TextExtractionError_new url1
                      (Some (short_text_prefix @ str_int (int (length text)) @ characters_suffix)))),
            c, w)"
proof -
  obtain sc where sc: "map_of STYLES (validate_style (str_lower env) style) = Some sc"
    using validate_style_config by blast
  show ?thesis
    by (simp add: generate_post_def u f x l sc Let_def validate_text_length_def)
qed

lemma demo_short_run:
  "generate_post (demo_env (asc '' too short '') []) demo_settings demo_client empty_world
     (asc ''https://example.com'') None None =
     (Inl (AppException
             (TextExtractionError_new (asc ''https://example.com'')
                (Some (short_text_prefix @ str_int 9 @ characters_suffix)))),
      demo_client, empty_world)"
proof -
  have u: "validate_url (validators_url (demo_env (asc '' too short '') []))
      (urlparse (demo_env (asc '' too short '') [])) (asc ''https://example.com'') =
     Inr (asc ''https://example.com'')"
    using demo_url by (simp add: demo_env_def)
  have f: "fetch_html (http_get (demo_env (asc '' too short '') [])) (asc ''https://example.com'') =
     Inr (asc ''<p> too short </p>'')"
    by (simp add: fetch_html_def demo_env_def asc_def)
  have x: "extract_text (soup_get_text (demo_env (asc '' too short '') [])) (asc ''<p> too short </p>'') =
     Inr (asc ''too short'')"
    by (simp add: extract_text_def demo_env_def asc_def clean_text_def strip_def isspace_def)
  have l: "int (length (asc ''too short'')) < min_text_length demo_settings"
    by (simp add: asc_def demo_settings_def)
  have n: "int (length (asc ''too short'')) = 9" by (simp add: asc_def)
  from generate_post_short_text[OF u f x l, of demo_client empty_world None None] n
  show ?thesis by simp
qed

text \<open>
  Claim C6. When the URL is accepted, the page is fetched and the extracted, normalized
  text is shorter than the configured minimum, \<open>generate_post\<close> raises TextExtractionError
  (code TEXT_EXTRACTION_ERROR) and leaves the client and the world as they were: no request
  was sent, and the three counters are unchanged.
\<close>

theorem short_text_law:
  "validate_url (validators_url env) (urlparse env) url = Inr url1 \<and>
   fetch_html (http_get env) url1 = Inr html \<and>
   extract_text (soup_get_text env) html = Inr text \<and>
   int (length text) < min_text_length st \<longrightarrow>
   (\<exists>e. generate_post env st c w url style max_length = (Inl (AppException e), c, w) \<and>
        cls e = TextExtractionError \<and> error_code e = asc ''TEXT_EXTRACTION_ERROR'')"
  using generate_post_short_text[of env url url1 html "text" st c w style max_length]
    TextExtractionError_new_fields
  by blast

theorem short_text_law_witness:
  "validate_url (validators_url (demo_env (asc '' too short '') []))
      (urlparse (demo_env (asc '' too short '') [])) (asc ''https://example.com'') =
     Inr (asc ''https://example.com'') \<and>
   fetch_html (http_get (demo_env (asc '' too short '') [])) (asc ''https://example.com'') =
     Inr (asc ''<p> too short </p>'') \<and>
   extract_text (soup_get_text (demo_env (asc '' too short '') [])) (asc ''<p> too short </p>'') =
     Inr (asc ''too short'') \<and>
   int (length (asc ''too short'')) < min_text_length demo_settings \<and>
   (\<exists>e. generate_post (demo_env (asc '' too short '') []) demo_settings demo_client empty_world
          (asc ''https://example.com'') None None = (Inl (AppException e), demo_client, empty_world) \<and>
        cls e = TextExtractionError \<and> error_code e = asc ''TEXT_EXTRACTION_ERROR'')"
proof -
  have u: "validate_url (validators_url (demo_env (asc '' too short '') []))
      (urlparse (demo_env (asc '' too short '') [])) (asc ''https://example.com'') =
     Inr (asc ''https://example.com'')"
    using demo_url by (simp add: demo_env_def)
  have f: "fetch_html (http_get (demo_env (asc '' too short '') [])) (asc ''https://example.com'') =
     Inr (asc ''<p> too short </p>'')"
    by (simp add: fetch_html_def demo_env_def asc_def)
  have x: "extract_text (soup_get_text (demo_env (asc '' too short '') [])) (asc ''<p> too short </p>'') =
     Inr (asc ''too short'')"
    by (simp add: extract_text_def demo_env_def asc_def clean_text_def strip_def isspace_def)
  have l: "int (length (asc ''too short'')) < min_text_length demo_settings"
    by (simp add: asc_def demo_settings_def)
  from short_text_law[of "demo_env (asc '' too short '') []" "asc ''https://example.com''"
      "asc ''https://example.com''" "asc ''<p> too short </p>''" "asc ''too short''" demo_settings
      demo_client empty_world None None] u f x l
  show ?thesis by blast
qed

lemma strip_no_space: "\<forall>c \<in> set s. \<not> isspace c \<Longrightarrow> strip s = s"
proof -
  assume a: "\<forall>c \<in> set s. \<not> isspace c"
  then have "dropWhile isspace s = s" by simp
  moreover from a have "dropWhile isspace (rev s) = rev s" by (intro dropWhile_id) simp
  ultimately show ?thesis by (simp add: strip_def)
qed

lemma clean_text_no_space: "\<forall>c \<in> set s. \<not> isspace c \<Longrightarrow> clean_text s = s"
proof -
  assume a: "\<forall>c \<in> set s. \<not> isspace c"
  then have "sub_runs isspace [32] s = s" by (rule sub_runs_absent)
  with a show ?thesis by (simp add: clean_text_eq strip_no_space)
qed

lemma generate_post_completed:
  assumes u: "validate_url (validators_url env) (urlparse env) url = Inr url1"
    and f: "fetch_html (http_get env) url1 = Inr html"
    and x: "extract_text (soup_get_text env) html = Inr text"
    and l: "\<not> int (length text) < min_text_length st"
    and r: "\<forall>n q. remote env n q = Completed r"
    and fc: "first_content r = Inr reply"
    and us: "usage_tokens r = None"
  shows "fst (generate_post env st c w url style max_length) =
           Inr (finalize_post (strip (strip reply)) (post_max_length st max_length))"
proof -
  obtain sc where sc: "map_of STYLES (validate_style (str_lower env) style) = Some sc"
    using validate_style_config by blast
  have g: "generate_text (remote env) c w p sp 3 =
      (Inr (strip reply), c\<lparr>total_requests := total_requests c + 1\<rparr>,
       w\<lparr>calls := calls w @ [\<lparr>req_model = model c, req_messages = chat_messages p sp\<rparr>]\<rparr>)" for p sp
    unfolding generate_text_def
    using retry_loop_completed[of 0 3 "remote env" w _ r reply 0 None c] r fc us by simp
  show ?thesis
    by (simp add: generate_post_def u f x l sc Let_def validate_text_length_def g)
qed

text \<open>
  Claim C1 at two inputs, with the maximum 400. A generated text of 401 letters without
  a space comes back as its first 400 letters and the ellipsis: 403 characters, cut inside
  the word. A generated text of 399 letters, a space and ten letters comes back as the 399
  letters and the ellipsis: 402 characters. Both are longer than the maximum.
\<close>

theorem overlong_post_example:
  "fst (generate_post (demo_env (replicate 120 120) (replicate 401 97)) demo_settings demo_client
          empty_world (asc ''https://example.com'') None (Some 400)) =
     Inr (replicate 400 97 @ asc ''...'') \<and>
   length (replicate 400 97 @ asc ''...'') = 403 \<and>
   fst (generate_post (demo_env (replicate 120 120) (replicate 399 97 @ 32 # replicate 10 98))
          demo_settings demo_client empty_world (asc ''https://example.com'') None (Some 400)) =
     Inr (replicate 399 97 @ asc ''...'') \<and>
   length (replicate 399 97 @ asc ''...'') = 402"
proof -
  have u: "validate_url (validators_url (demo_env p r)) (urlparse (demo_env p r))
             (asc ''https://example.com'') = Inr (asc ''https://example.com'')" for p r
    using demo_url by (simp add: demo_env_def)
  have f: "fetch_html (http_get (demo_env p r)) (asc ''https://example.com'') =
             Inr (asc ''<p>'' @ p @ asc ''</p>'')" for p r
    by (simp add: fetch_html_def demo_env_def)
  have c: "clean_text (replicate 120 120) = replicate 120 120"
    by (rule clean_text_no_space) (simp add: isspace_def)
  have x: "extract_text (soup_get_text (demo_env (replicate 120 120) r))
             (asc ''<p>'' @ replicate 120 120 @ asc ''</p>'') = Inr (replicate 120 120)" for r
    using demo_extract[of "replicate 120 120" r] c by simp
  have l: "\<not> int (length (replicate 120 (120::nat))) < min_text_length demo_settings"
    by (simp add: demo_settings_def)
  have rm: "\<forall>n q. remote (demo_env p r) n q =
      Completed \<lparr>first_content = Inr r, usage_tokens = None\<rparr>" for p r
    by (simp add: demo_env_def)
  have pm: "post_max_length demo_settings (Some 400) = 400"
    by (simp add: post_max_length_def)
  have s1: "strip (replicate 401 97) = replicate 401 97"
    by (rule strip_no_space) (simp add: isspace_def)
  have s2: "strip (replicate 399 97 @ 32 # replicate 10 98) = replicate 399 97 @ 32 # replicate 10 98"
    by (rule strip_fixed) (simp_all add: leading_hd trailing_space_def isspace_def hd_append)
  have f1: "finalize_post (replicate 401 97) 400 = replicate 400 97 @ asc ''...''"
    by (simp add: finalize_post_def rsplit_space_head_def)
  have f2: "finalize_post (replicate 399 97 @ 32 # replicate 10 98) 400 = replicate 399 97 @ asc ''...''"
    by (simp add: finalize_post_def rsplit_space_head_def)
  have a: "fst (generate_post (demo_env (replicate 120 120) (replicate 401 97)) demo_settings demo_client
          empty_world (asc ''https://example.com'') None (Some 400)) =
     Inr (replicate 400 97 @ asc ''...'')"
    using generate_post_completed[OF u f x l rm, where reply = "replicate 401 97"
        and c = demo_client and w = empty_world and style = None and max_length = "Some 400"]
    by (simp add: pm s1 f1)
  have b: "fst (generate_post (demo_env (replicate 120 120) (replicate 399 97 @ 32 # replicate 10 98))
          demo_settings demo_client empty_world (asc ''https://example.com'') None (Some 400)) =
     Inr (replicate 399 97 @ asc ''...'')"
    using generate_post_completed[OF u f x l rm,
        where reply = "replicate 399 97 @ 32 # replicate 10 98"
        and c = demo_client and w = empty_world and style = None and max_length = "Some 400"]
    by (simp add: pm s2 f2)
  show ?thesis using a b by (simp add: asc_def)
qed


section \<open>Further properties of the code\<close>

subsection \<open>The cut of an overlong post\<close>

lemma rsplit_space_head_split:
  "32 \<in> set s \<Longrightarrow> \<exists>t. s = rsplit_space_head s @ 32 # t \<and> 32 \<notin> set t"
proof -
  assume a: "32 \<in> set s"
  let ?P = "\<lambda>c::nat. c \<noteq> 32"
  let ?tw = "takeWhile ?P (rev s)"
  from a have ne: "dropWhile ?P (rev s) \<noteq> []" by auto
  then obtain d u where du: "dropWhile ?P (rev s) = d # u" by (cases "dropWhile ?P (rev s)") auto
  from ne have "\<not> ?P (hd (dropWhile ?P (rev s)))" by (rule hd_dropWhile)
  with du have d: "d = 32" by simp
  have "rev s = ?tw @ dropWhile ?P (rev s)" by simp
  with du d have "rev s = ?tw @ 32 # u" by simp
  then have "rev (rev s) = rev (?tw @ 32 # u)" by (rule arg_cong)
  then have s: "s = rev u @ 32 # rev ?tw" by simp
  have h: "rsplit_space_head s = rev u" using a du by (simp add: rsplit_space_head_def)
  have "\<forall>x \<in> set ?tw. ?P x" using set_takeWhileD by fastforce
  then have n: "32 \<notin> set (rev ?tw)" by auto
  from s h have "s = rsplit_space_head s @ 32 # rev ?tw" by simp
  with n show ?thesis by blast
qed

lemma rsplit_space_head_length: "length (rsplit_space_head s) \<le> length s"
proof (cases "32 \<in> set s")
  case True
  from rsplit_space_head_split[OF True] obtain t where "s = rsplit_space_head s @ 32 # t" by blast
  then have "length s = length (rsplit_space_head s @ 32 # t)" by simp
  then show ?thesis by simp
next
  case False then show ?thesis by (simp add: rsplit_space_head_def)
qed

lemma rsplit_space_head_prefix: "take (length (rsplit_space_head s)) s = rsplit_space_head s"
proof (cases "32 \<in> set s")
  case True
  from rsplit_space_head_split[OF True] obtain t where "s = rsplit_space_head s @ 32 # t" by blast
  then show ?thesis by (metis append_eq_conv_conj)
next
  case False then show ?thesis by (simp add: rsplit_space_head_def)
qed

text \<open>
  Property X1. When the trimmed text is longer than the maximum, the returned post is a
  prefix of it of at most the maximum length, followed by the three-character ellipsis: at
  most three characters more than the maximum. When the first \<open>pml\<close> characters hold a
  space, the prefix ends right before one (no word is cut); when they hold none, the prefix
  is the first \<open>pml\<close> characters.
\<close>

theorem finalize_post_shape:
  "0 \<le> pml \<and> pml < int (length post) \<longrightarrow>
     (\<exists>h. finalize_post post pml = h @ asc ''...'' \<and> take (length h) post = h \<and>
          length h \<le> nat pml \<and>
          (if 32 \<in> set (take (nat pml) post) then post ! length h = 32 else length h = nat pml)) \<and>
     length (finalize_post post pml) \<le> nat pml + 3"
proof (intro impI, elim conjE)
  assume p: "0 \<le> pml" and l: "pml < int (length post)"
  let ?c = "take (nat pml) post"
  let ?h = "rsplit_space_head ?c"
  from p l have lc: "length ?c = nat pml" by simp
  have f: "finalize_post post pml = ?h @ asc ''...''" using l by (simp add: finalize_post_def)
  have hl: "length ?h \<le> nat pml" using rsplit_space_head_length[of ?c] lc by simp
  have "take (length ?h) ?c = ?h" by (rule rsplit_space_head_prefix)
  then have pre: "take (length ?h) post = ?h" using hl by (simp add: min_def)
  have cut: "if 32 \<in> set ?c then post ! length ?h = 32 else length ?h = nat pml"
  proof (cases "32 \<in> set ?c")
    case True
    from rsplit_space_head_split[OF True] obtain t where t: "?c = ?h @ 32 # t" by blast
    from t have "?c ! length ?h = (?h @ 32 # t) ! length ?h" by simp
    then have n32: "?c ! length ?h = 32" by (simp only: nth_append_length)
    from t have "length ?c = length (?h @ 32 # t)" by simp
    then have "length ?h < length ?c" by simp
    with n32 lc have "post ! length ?h = 32" by simp
    with True show ?thesis by simp
  next
    case False
    then show ?thesis using lc by (simp add: rsplit_space_head_def)
  qed
  have len: "length (finalize_post post pml) \<le> nat pml + 3" using f hl by (simp add: asc_def)
  from f pre hl cut len
  show "(\<exists>h. finalize_post post pml = h @ asc ''...'' \<and> take (length h) post = h \<and>
          length h \<le> nat pml \<and>
          (if 32 \<in> set (take (nat pml) post) then post ! length h = 32 else length h = nat pml)) \<and>
     length (finalize_post post pml) \<le> nat pml + 3" by blast
qed

theorem finalize_post_shape_witness:
  "(0::int) \<le> 5 \<and> (5::int) < int (length (asc ''ab cdef'')) \<and>
   finalize_post (asc ''ab cdef'') 5 = asc ''ab...'' \<and>
   length (finalize_post (asc ''ab cdef'') 5) \<le> nat 5 + 3"
  using finalize_post_shape[of 5 "asc ''ab cdef''"]
  by (simp add: finalize_post_def rsplit_space_head_def asc_def)

subsection \<open>The counters\<close>

lemma generate_text_counters:
  "generate_text rem c w prompt sp max_retries = (r, c', w') \<Longrightarrow>
   model c' = model c \<and> total_requests c \<le> total_requests c' \<and>
   (case r of
      Inr t \<Rightarrow> failed_requests c' = failed_requests c \<and> total_requests c < total_requests c'
    | Inl e \<Rightarrow> failed_requests c' = failed_requests c + 1 \<and> total_tokens c' = total_tokens c)"
  unfolding generate_text_def by (rule retry_loop_counters)

lemma generate_text_counters_exact:
  "generate_text rem c w prompt sp max_retries = (r, c', w') \<Longrightarrow>
   \<forall>i q p e. rem i q = Completed p \<longrightarrow> usage_tokens p \<noteq> Some (Inl e) \<Longrightarrow>
   (case r of
      Inr t \<Rightarrow> total_requests c' = total_requests c + 1 \<and> failed_requests c' = failed_requests c
    | Inl e \<Rightarrow> total_requests c' = total_requests c \<and> failed_requests c' = failed_requests c + 1)"
  unfolding generate_text_def by (rule retry_loop_counters_exact)

lemma run_invocations_counters:
  "run_invocations rem c w invs = (rs, c', w') \<Longrightarrow>
   \<forall>i q p e. rem i q = Completed p \<longrightarrow> usage_tokens p \<noteq> Some (Inl e) \<Longrightarrow>
   total_requests c' = total_requests c + int (length (filter (\<lambda>r. \<not> isl r) rs)) \<and>
   failed_requests c' = failed_requests c + int (length (filter isl rs))"
proof (induction invs arbitrary: c w rs c' w')
  case Nil
  then show ?case by simp
next
  case (Cons inv invs)
  obtain p sp mr where inv: "inv = (p, sp, mr)" by (cases inv)
  obtain r c1 w1 where g: "generate_text rem c w p sp mr = (r, c1, w1)"
    by (cases "generate_text rem c w p sp mr")
  obtain rs2 c2 w2 where rr: "run_invocations rem c1 w1 invs = (rs2, c2, w2)"
    by (cases "run_invocations rem c1 w1 invs")
  from Cons.prems(1) inv g rr have e: "rs = r # rs2" "c' = c2" by simp_all
  from Cons.IH[OF rr Cons.prems(2)] have ih:
    "total_requests c2 = total_requests c1 + int (length (filter (\<lambda>r. \<not> isl r) rs2))"
    "failed_requests c2 = failed_requests c1 + int (length (filter isl rs2))" by simp_all
  from generate_text_counters_exact[OF g Cons.prems(2)] ih e show ?case by (cases r) simp_all
qed

text \<open>
  Property X2. One \<open>generate_text\<close> invocation that raises adds exactly one to
  \<open>failed_requests\<close>, however many attempts were made, and adds no tokens; one that
  returns leaves \<open>failed_requests\<close> and counts at least one request. \<open>total_requests\<close> never
  decreases.
\<close>

theorem generate_text_counts_once:
  "generate_text rem c w prompt sp max_retries = (r, c', w') \<longrightarrow>
   model c' = model c \<and> total_requests c \<le> total_requests c' \<and>
   (case r of
      Inr t \<Rightarrow> failed_requests c' = failed_requests c \<and> total_requests c < total_requests c'
    | Inl e \<Rightarrow> failed_requests c' = failed_requests c + 1 \<and> total_tokens c' = total_tokens c)"
  using generate_text_counters by blast

theorem generate_text_counts_once_witness:
  "generate_text (remote_limited None) demo_client empty_world (asc ''hi'') None 3 =
     (Inl (RateLimitError_new None), demo_client\<lparr>failed_requests := 1\<rparr>,
      \<lparr>calls = [demo_request, demo_request], sleeps = [1]\<rparr>) \<and>
   total_tokens (demo_client\<lparr>failed_requests := 1\<rparr>) = total_tokens demo_client \<and>
   failed_requests (demo_client\<lparr>failed_requests := 1\<rparr>) = failed_requests demo_client + 1"
  using generate_text_counts_once[of "remote_limited None" demo_client empty_world "asc ''hi''" None 3
      "Inl (RateLimitError_new None)" "demo_client\<lparr>failed_requests := 1\<rparr>"
      "\<lparr>calls = [demo_request, demo_request], sleeps = [1]\<rparr>"]
    limited_run[of None]
  by simp

text \<open>
  Property X3. When no reply raises while its tokens are added: after any sequence of
  invocations on a new client, of which \<open>N\<close> returned and \<open>M\<close> raised,
  \<open>total_requests = N\<close> and \<open>failed_requests = M\<close>. These are the two numbers
  \<open>get_statistics\<close> computes the rate from.
\<close>

theorem counters_of_invocations:
  "(\<forall>i q p e. rem i q = Completed p \<longrightarrow> usage_tokens p \<noteq> Some (Inl e)) \<and>
   run_invocations rem (new_client m) w invs = (rs, c, w') \<longrightarrow>
   total_requests c = int (length (filter (\<lambda>r. \<not> isl r) rs)) \<and>
   failed_requests c = int (length (filter isl rs))"
proof (intro impI, elim conjE)
  assume h: "\<forall>i q p e. rem i q = Completed p \<longrightarrow> usage_tokens p \<noteq> Some (Inl e)"
    and a: "run_invocations rem (new_client m) w invs = (rs, c, w')"
  from run_invocations_counters[OF a h]
  show "total_requests c = int (length (filter (\<lambda>r. \<not> isl r) rs)) \<and>
        failed_requests c = int (length (filter isl rs))"
    by (simp add: new_client_def)
qed

theorem counters_of_invocations_witness:
  "(\<forall>i q p e. remote_once i q = Completed p \<longrightarrow> usage_tokens p \<noteq> Some (Inl e)) \<and>
   run_invocations remote_once (new_client (asc ''gpt-4o'')) empty_world
     [(asc ''hi'', None, 3), (asc ''hi'', None, 3)] =
     ([Inr (asc ''ok''), Inl (RateLimitError_new None)],
      demo_client\<lparr>total_requests := 1, total_tokens := 7, failed_requests := 1\<rparr>,
      \<lparr>calls = [demo_request, demo_request], sleeps = []\<rparr>) \<and>
   total_requests (demo_client\<lparr>total_requests := 1, total_tokens := 7, failed_requests := 1\<rparr>) = 1 \<and>
   failed_requests (demo_client\<lparr>total_requests := 1, total_tokens := 7, failed_requests := 1\<rparr>) = 1"
proof -
  have h: "\<forall>i q p e. remote_once i q = Completed p \<longrightarrow> usage_tokens p \<noteq> Some (Inl e)"
    by (auto simp: remote_once_def demo_reply_def split: if_splits)
  have r: "run_invocations remote_once (new_client (asc ''gpt-4o'')) empty_world
     [(asc ''hi'', None, 3), (asc ''hi'', None, 3)] =
     ([Inr (asc ''ok''), Inl (RateLimitError_new None)],
      demo_client\<lparr>total_requests := 1, total_tokens := 7, failed_requests := 1\<rparr>,
      \<lparr>calls = [demo_request, demo_request], sleeps = []\<rparr>)"
    using once_run by (simp add: demo_client_def)
  from counters_of_invocations[of remote_once "asc ''gpt-4o''" empty_world
      "[(asc ''hi'', None, 3), (asc ''hi'', None, 3)]"
      "[Inr (asc ''ok''), Inl (RateLimitError_new None)]"
      "demo_client\<lparr>total_requests := 1, total_tokens := 7, failed_requests := 1\<rparr>"
      "\<lparr>calls = [demo_request, demo_request], sleeps = []\<rparr>"] h r
  have "total_requests (demo_client\<lparr>total_requests := 1, total_tokens := 7, failed_requests := 1\<rparr>) = 1 \<and>
   failed_requests (demo_client\<lparr>total_requests := 1, total_tokens := 7, failed_requests := 1\<rparr>) = 1"
    by simp
  with h r show ?thesis by blast
qed

text \<open>
  Property X5. A reply that has a text but raises while its tokens are added (a
  \<open>total_tokens\<close> of \<open>None\<close>) is counted as a request and then handled as an unexpected
  error: on the last attempt the invocation raises OpenAIError, and both
  \<open>total_requests\<close> and \<open>failed_requests\<close> are one more.
\<close>

theorem counted_reply_failure:
  "rem (length (calls w)) \<lparr>req_model = model c, req_messages = chat_messages prompt sp\<rparr> =
     Completed r \<and>
   first_content r = Inr reply \<and> usage_tokens r = Some (Inl e) \<longrightarrow>
   generate_text rem c w prompt sp 1 =
     (Inl (OpenAIError_new unexpected_reason (Some e) 1),
      c\<lparr>total_requests := total_requests c + 1, failed_requests := failed_requests c + 1\<rparr>,
      w\<lparr>calls := calls w @ [\<lparr>req_model = model c, req_messages = chat_messages prompt sp\<rparr>]\<rparr>)"
  unfolding generate_text_def
  using retry_loop_counted_failure[of 0 1 rem w
      "\<lparr>req_model = model c, req_messages = chat_messages prompt sp\<rparr>" r reply e None c]
  by simp

theorem counted_reply_failure_witness:
  "remote_miscounted (length (calls empty_world))
     \<lparr>req_model = model demo_client, req_messages = chat_messages (asc ''hi'') None\<rparr> =
     Completed \<lparr>first_content = Inr (asc ''ok''), usage_tokens = Some (Inl demo_type_error)\<rparr> \<and>
   generate_text remote_miscounted demo_client empty_world (asc ''hi'') None 1 =
     (Inl (OpenAIError_new unexpected_reason (Some demo_type_error) 1),
      demo_client\<lparr>total_requests := 1, failed_requests := 1\<rparr>,
      \<lparr>calls = [demo_request], sleeps = []\<rparr>)"
  using counted_reply_failure[of remote_miscounted empty_world demo_client "asc ''hi''" None
      "\<lparr>first_content = Inr (asc ''ok''), usage_tokens = Some (Inl demo_type_error)\<rparr>"
      "asc ''ok''" demo_type_error]
  by (simp add: remote_miscounted_def empty_world_def demo_client_def new_client_def
      demo_request_eq)

subsection \<open>The exceptions of the pipeline\<close>

lemma validate_url_cls: "validate_url valid parse url = Inl e \<Longrightarrow> cls e = URLValidationError"
  by (auto simp: validate_url_def Let_def cls_URLValidationError_new split: if_splits)

lemma fetch_html_cls: "fetch_html http url = Inl e \<Longrightarrow> cls e = URLFetchError"
  by (auto simp: fetch_html_def URLFetchError_new_def base_init_def split: sum.splits)

lemma extract_text_cls: "extract_text get_text html = Inl e \<Longrightarrow> cls e = TextExtractionError"
  by (auto simp: extract_text_def TextExtractionError_new_fields split: sum.splits)

lemma validate_text_length_cls:
  "validate_text_length st text url = Inl e \<Longrightarrow> cls e = TextExtractionError"
  by (auto simp: validate_text_length_def TextExtractionError_new_fields split: if_splits)

lemma PostGenerationError_new_cls: "cls (PostGenerationError_new r u s) = PostGenerationError"
  by (simp add: PostGenerationError_new_def base_init_def)

text \<open>
  Property X4. Every exception \<open>generate_post\<close> raises is one of exceptions.py, of class
  URLValidationError, URLFetchError, TextExtractionError or PostGenerationError; the lookup
  in the style table never raises KeyError.
\<close>

theorem generate_post_failure_kinds:
  "generate_post env st c w url style max_length = (Inl x, c', w') \<longrightarrow>
   (\<exists>e. x = AppException e \<and>
        (cls e = URLValidationError \<or> cls e = URLFetchError \<or> cls e = TextExtractionError \<or>
         cls e = PostGenerationError))"
proof
  assume a: "generate_post env st c w url style max_length = (Inl x, c', w')"
  obtain sc where sc: "map_of STYLES (validate_style (str_lower env) style) = Some sc"
    using validate_style_config by blast
  from a show "\<exists>e. x = AppException e \<and>
        (cls e = URLValidationError \<or> cls e = URLFetchError \<or> cls e = TextExtractionError \<or>
         cls e = PostGenerationError)"
    unfolding generate_post_def Let_def sc option.case
    by (auto split: sum.splits prod.splits
        dest: validate_url_cls fetch_html_cls extract_text_cls validate_text_length_cls
        simp: PostGenerationError_new_cls)
qed

theorem generate_post_failure_kinds_witness:
  "generate_post (demo_env (asc '' too short '') []) demo_settings demo_client empty_world
     (asc ''https://example.com'') None None =
     (Inl (AppException
             (TextExtractionError_new (asc ''https://example.com'')
                (Some (short_text_prefix @ str_int 9 @ characters_suffix)))),
      demo_client, empty_world) \<and>
   cls (TextExtractionError_new (asc ''https://example.com'')
          (Some (short_text_prefix @ str_int 9 @ characters_suffix))) = TextExtractionError"
  using generate_post_failure_kinds[of "demo_env (asc '' too short '') []" demo_settings
      demo_client empty_world "asc ''https://example.com''" None None
      "AppException (TextExtractionError_new (asc ''https://example.com'')
                (Some (short_text_prefix @ str_int 9 @ characters_suffix)))"
      demo_client empty_world]
    demo_short_run TextExtractionError_new_fields
  by simp

end
